theory Spec2Isabelle
  imports Complex_Main "HOL-Library.Multiset"
begin

section \<open>Request values and validators\<close>

text \<open>
  A field of a request body that the validators read as an integer is a JSON number, a
  JSON string, or absent. Numbers are rationals here (floating-point rounding is not
  modelled). No sanitizer follows the validators, so a string that passes stays a string
  in the handler. Other JSON values (null, booleans, arrays, objects) are not modelled.
\<close>

datatype jsval = JNum rat | JStr string | JUndefined

text \<open>The value of a decimal digit.\<close>

definition digit_of :: "char \<Rightarrow> nat option" where
  "digit_of = map_of [(CHR ''0'', 0), (CHR ''1'', 1), (CHR ''2'', 2), (CHR ''3'', 3), (CHR ''4'', 4),
                      (CHR ''5'', 5), (CHR ''6'', 6), (CHR ''7'', 7), (CHR ''8'', 8), (CHR ''9'', 9)]"

fun digits_value :: "nat \<Rightarrow> string \<Rightarrow> nat option" where
  "digits_value acc [] = Some acc"
| "digits_value acc (c # cs) =
     (case digit_of c of None \<Rightarrow> None | Some k \<Rightarrow> digits_value (10 * acc + k) cs)"

text \<open>One decimal digit or more, leading zeroes included.\<close>

definition parse_nat :: "string \<Rightarrow> nat option" where
  "parse_nat s = (if s = [] then None else digits_value 0 s)"

text \<open>
  The integer a string denotes when it has the shape \<^verbatim>\<open>/^[-+]?[0-9]+$/\<close>, the shape
  \<^verbatim>\<open>isInt\<close> tests; JavaScript's conversion to a number and the INT columns of MySQL
  read such a string as this integer.
\<close>

definition parse_int :: "string \<Rightarrow> int option" where
  "parse_int s =
     (case s of
        [] \<Rightarrow> None
      | c # cs \<Rightarrow>
          if c = CHR ''-'' then map_option (\<lambda>n. - int n) (parse_nat cs)
          else if c = CHR ''+'' then map_option int (parse_nat cs)
          else map_option int (parse_nat s))"

text \<open>
  \<^verbatim>\<open>isInt({ min: m })\<close> of express-validator: an integral number, or a string of the
  integer shape, whose value is at least \<open>m\<close>.
\<close>

definition isInt :: "int \<Rightarrow> jsval \<Rightarrow> bool" where
  "isInt m v =
     (case v of
        JNum r \<Rightarrow> of_int \<lfloor>r\<rfloor> = r \<and> of_int m \<le> r
      | JStr s \<Rightarrow> (case parse_int s of None \<Rightarrow> False | Some n \<Rightarrow> m \<le> n)
      | JUndefined \<Rightarrow> False)"

text \<open>
  The integer a validated field denotes: what \<^verbatim>\<open>parseInt\<close>, the arithmetic operators
  \<^verbatim>\<open>-\<close> and \<^verbatim>\<open><\<close>, and a comparison with an INT column make of it.
\<close>

definition num :: "jsval \<Rightarrow> int" where
  "num v =
     (case v of
        JNum r \<Rightarrow> \<lfloor>r\<rfloor>
      | JStr s \<Rightarrow> (case parse_int s of None \<Rightarrow> 0 | Some n \<Rightarrow> n)
      | JUndefined \<Rightarrow> 0)"

text \<open>The decimal digits of a number, as JavaScript writes it in a string.\<close>

definition digit_char :: "nat \<Rightarrow> char" where
  "digit_char k =
     (if k = 0 then CHR ''0'' else if k = 1 then CHR ''1'' else if k = 2 then CHR ''2''
      else if k = 3 then CHR ''3'' else if k = 4 then CHR ''4'' else if k = 5 then CHR ''5''
      else if k = 6 then CHR ''6'' else if k = 7 then CHR ''7'' else if k = 8 then CHR ''8''
      else CHR ''9'')"

fun decimal :: "nat \<Rightarrow> string" where
  "decimal n = (if n < 10 then [digit_char n]
                else decimal (n div 10) @ [digit_char (n mod 10)])"

declare decimal.simps [simp del]

definition js_string :: "int \<Rightarrow> string" where
  "js_string i = (if i < 0 then CHR ''-'' # decimal (nat (- i)) else decimal (nat i))"

text \<open>
  JavaScript's \<^verbatim>\<open>+\<close> with a number on the left: it adds a number, and it appends a
  string to the digits of the number.
\<close>

definition js_plus :: "int \<Rightarrow> jsval \<Rightarrow> jsval" where
  "js_plus a v =
     (case v of
        JNum r \<Rightarrow> JNum (of_int a + r)
      | JStr s \<Rightarrow> JStr (js_string a @ s)
      | JUndefined \<Rightarrow> JUndefined)"

section \<open>Tables of schema.sql\<close>

datatype tipo_mov = Entrada | Salida | Ajuste

definition tipo_literal :: "tipo_mov \<Rightarrow> string" where
  "tipo_literal t = (case t of Entrada \<Rightarrow> ''entrada'' | Salida \<Rightarrow> ''salida'' | Ajuste \<Rightarrow> ''ajuste'')"

text \<open>A row of \<^verbatim>\<open>productos\<close>; the primary key \<^verbatim>\<open>id\<close> is the key of the table map.\<close>

record producto =
  codigo :: string
  nombre :: string
  descripcion :: string
  precio :: rat
  stock_minimo :: int
  stock_actual :: int
  categoria_id :: int
  activo :: bool
  updated_at :: nat

text \<open>A row of \<^verbatim>\<open>movimientos_inventario\<close>.\<close>

record movimiento =
  mov_id :: int
  producto_id :: int
  tipo :: tipo_mov
  cantidad :: int
  cantidad_anterior :: int
  cantidad_nueva :: int
  motivo :: "string option"
  usuario_id :: int
  fecha_movimiento :: nat

record usuario =
  usr_nombre :: string
  usr_apellido :: string

text \<open>
  The database: the two tables of the ledger, the users the ledger refers to, and the
  AUTO_INCREMENT counters. The movement table is kept in insertion order. INT columns
  are unbounded integers; a value outside the range of its column is one of the storage
  failures below.
\<close>

record db =
  productos :: "int \<rightharpoonup> producto"
  movimientos_inventario :: "movimiento list"
  usuarios :: "int \<rightharpoonup> usuario"
  auto_productos :: int
  auto_movimientos :: int

section \<open>The persistence layer (config/database)\<close>

text \<open>The statements the handlers send, each with its parameters in the order of the source.\<close>

datatype query =
    InsertMovimiento int tipo_mov int int int "string option" int
  | UpdateStock int int
  | InsertProducto string string string rat int int int
  | UpdateProducto string string rat int int int int
  | DesactivarProducto int

text \<open>
  The effect of one statement at time \<open>now\<close> (CURRENT_TIMESTAMP). The update of
  products.js and the soft delete carry \<^verbatim>\<open>AND activo = 1\<close>; the stock update of
  inventory.js does not.
\<close>

fun apply_query :: "nat \<Rightarrow> query \<Rightarrow> db \<Rightarrow> db" where
  "apply_query now (InsertMovimiento pid t c ant nue mot uid) d =
     d\<lparr>movimientos_inventario := movimientos_inventario d @
          [\<lparr>mov_id = auto_movimientos d, producto_id = pid, tipo = t, cantidad = c,
            cantidad_anterior = ant, cantidad_nueva = nue, motivo = mot, usuario_id = uid,
            fecha_movimiento = now\<rparr>],
       auto_movimientos := auto_movimientos d + 1\<rparr>"
| "apply_query now (UpdateStock nue pid) d =
     (case productos d pid of
        None \<Rightarrow> d
      | Some p \<Rightarrow> d\<lparr>productos := (productos d)(pid \<mapsto> p\<lparr>stock_actual := nue, updated_at := now\<rparr>)\<rparr>)"
| "apply_query now (InsertProducto cod nom des pre stock smin cat) d =
     d\<lparr>productos := (productos d)(auto_productos d \<mapsto>
          \<lparr>codigo = cod, nombre = nom, descripcion = des, precio = pre, stock_minimo = smin,
           stock_actual = stock, categoria_id = cat, activo = True, updated_at = now\<rparr>),
       auto_productos := auto_productos d + 1\<rparr>"
| "apply_query now (UpdateProducto nom des pre stock smin cat pid) d =
     (case productos d pid of
        None \<Rightarrow> d
      | Some p \<Rightarrow>
          if activo p
          then d\<lparr>productos := (productos d)(pid \<mapsto>
                 p\<lparr>nombre := nom, descripcion := des, precio := pre, stock_actual := stock,
                   stock_minimo := smin, categoria_id := cat, updated_at := now\<rparr>)\<rparr>
          else d)"
| "apply_query now (DesactivarProducto pid) d =
     (case productos d pid of
        None \<Rightarrow> d
      | Some p \<Rightarrow>
          if activo p
          then d\<lparr>productos := (productos d)(pid \<mapsto> p\<lparr>activo := False, updated_at := now\<rparr>)\<rparr>
          else d)"

text \<open>The number of rows a statement matches (\<^verbatim>\<open>affectedRows\<close>).\<close>

fun affectedRows :: "query \<Rightarrow> db \<Rightarrow> nat" where
  "affectedRows (UpdateProducto nom des pre stock smin cat pid) d =
     (case productos d pid of None \<Rightarrow> 0 | Some p \<Rightarrow> if activo p then 1 else 0)"
| "affectedRows (DesactivarProducto pid) d =
     (case productos d pid of None \<Rightarrow> 0 | Some p \<Rightarrow> if activo p then 1 else 0)"
| "affectedRows (UpdateStock nue pid) d = (case productos d pid of None \<Rightarrow> 0 | Some p \<Rightarrow> 1)"
| "affectedRows q d = 1"

text \<open>
  What surrounds one handler call: the clock, and the storage failures injected into it.
  A failure stands for anything the storage layer can throw (a lost connection, a
  constraint or range error). \<open>tx_fault = Some k\<close> makes the statement with index \<open>k\<close>
  of the next write fail.
\<close>

record env =
  now :: nat
  select_fails :: bool
  tx_fault :: "nat option"

datatype db_error = PersistenceFailure

text \<open>
  The statements of a transaction run in order on a working copy; the statement the
  fault points at throws.
\<close>

fun run_queries :: "nat \<Rightarrow> nat option \<Rightarrow> query list \<Rightarrow> db \<Rightarrow> db option" where
  "run_queries t f [] d = Some d"
| "run_queries t f (q # qs) d =
     (case f of
        Some 0 \<Rightarrow> None
      | Some (Suc k) \<Rightarrow> run_queries t (Some k) qs (apply_query t q d)
      | None \<Rightarrow> run_queries t None qs (apply_query t q d))"

text \<open>
  A parameter bound to an INT column: a number is stored rounded, a string is stored as
  the integer it denotes, and anything else makes the statement fail (the strict SQL
  mode, MySQL's default).
\<close>

definition columna_int :: "jsval \<Rightarrow> int option" where
  "columna_int v =
     (case v of
        JNum r \<Rightarrow> Some (round r)
      | JStr s \<Rightarrow> parse_int s
      | JUndefined \<Rightarrow> None)"

text \<open>
  The two statements of a movement, with the parameters as the handler passes them:
  product id, kind, quantity, stock before, stock after, reason and user of the INSERT;
  stock after and product id of the UPDATE.
\<close>

datatype sentencia =
    InsertMovimientoParams jsval tipo_mov jsval int jsval "string option" int
  | UpdateStockParams jsval jsval

definition bind_params :: "sentencia \<Rightarrow> query option" where
  "bind_params s =
     (case s of
        InsertMovimientoParams pid t c ant nue mot uid \<Rightarrow>
          (case columna_int pid of
             None \<Rightarrow> None
           | Some pid' \<Rightarrow>
               (case columna_int c of
                  None \<Rightarrow> None
                | Some c' \<Rightarrow>
                    (case columna_int nue of
                       None \<Rightarrow> None
                     | Some nue' \<Rightarrow> Some (InsertMovimiento pid' t c' ant nue' mot uid))))
      | UpdateStockParams nue pid \<Rightarrow>
          (case columna_int nue of
             None \<Rightarrow> None
           | Some nue' \<Rightarrow>
               (case columna_int pid of
                  None \<Rightarrow> None
                | Some pid' \<Rightarrow> Some (UpdateStock nue' pid'))))"

fun bind_all :: "sentencia list \<Rightarrow> query list option" where
  "bind_all [] = Some []"
| "bind_all (s # ss) =
     (case bind_params s of
        None \<Rightarrow> None
      | Some q \<Rightarrow> (case bind_all ss of None \<Rightarrow> None | Some qs \<Rightarrow> Some (q # qs)))"

text \<open>
  Modelled from the spec: \<^verbatim>\<open>executeTransaction\<close> of config/database, which is not among
  the sources. The spec asks of the persistence boundary an atomic multi-write commit:
  either every statement of the list is applied, or the call throws and storage is in
  its pre-call state. A statement with a parameter its column refuses is one that throws.
\<close>

definition executeTransaction :: "env \<Rightarrow> sentencia list \<Rightarrow> db \<Rightarrow> db_error + db" where
  "executeTransaction e queries d =
     (case bind_all queries of
        None \<Rightarrow> Inl PersistenceFailure
      | Some qs \<Rightarrow>
          (case run_queries (now e) (tx_fault e) qs d of
             None \<Rightarrow> Inl PersistenceFailure
           | Some d' \<Rightarrow> Inr d'))"

text \<open>
  Modelled from the spec: \<^verbatim>\<open>executeQuery\<close> of config/database, which is not among the
  sources, for a single writing statement: it applies the statement and reports the
  rows it matched, or throws and leaves storage as it was.
\<close>

definition executeQuery :: "env \<Rightarrow> query \<Rightarrow> db \<Rightarrow> db_error + (nat \<times> db)" where
  "executeQuery e q d =
     (case run_queries (now e) (tx_fault e) [q] d of
        None \<Rightarrow> Inl PersistenceFailure
      | Some d' \<Rightarrow> Inr (affectedRows q d, d'))"

text \<open>A row of the SELECT the three movement handlers read with.\<close>

record fila_producto =
  fila_id :: int
  fila_nombre :: string
  fila_stock_actual :: int

text \<open>
  Modelled from the spec: \<^verbatim>\<open>executeQuery\<close> of config/database, which is not among the
  sources, for the statement the three movement handlers read with,
  \<^verbatim>\<open>SELECT id, nombre, stock_actual FROM productos WHERE id = ? AND activo = 1\<close>:
  the rows that match, at most one since \<^verbatim>\<open>id\<close> is the primary key, or a failure.
\<close>

definition select_producto_activo :: "env \<Rightarrow> db \<Rightarrow> int \<Rightarrow> db_error + fila_producto list" where
  "select_producto_activo e d pid =
     (if select_fails e then Inl PersistenceFailure
      else case productos d pid of
             None \<Rightarrow> Inr []
           | Some p \<Rightarrow>
               if activo p
               then Inr [\<lparr>fila_id = pid, fila_nombre = nombre p, fila_stock_actual = stock_actual p\<rparr>]
               else Inr [])"

section \<open>routes/inventory.js: the movement handlers\<close>

text \<open>\<^verbatim>\<open>req.user\<close> as the authentication middleware leaves it; a permission is its truthiness.\<close>

record req_user =
  user_id :: int
  perm_all :: bool
  perm_inventory :: bool
  perm_products :: bool
  perm_reports :: bool

text \<open>\<^verbatim>\<open>req.body\<close> of the three movement endpoints.\<close>

record inv_body =
  req_producto_id :: jsval
  req_tipo :: string
  req_cantidad :: jsval
  req_motivo :: "string option"

text \<open>\<^verbatim>\<open>inventoryValidation\<close>: true when \<^verbatim>\<open>validationResult(req)\<close> has no errors.\<close>

definition inventoryValidation :: "inv_body \<Rightarrow> bool" where
  "inventoryValidation b \<longleftrightarrow>
     isInt 1 (req_producto_id b) \<and>
     req_tipo b \<in> set [''entrada'', ''salida'', ''ajuste''] \<and>
     isInt 1 (req_cantidad b) \<and>
     (case req_motivo b of None \<Rightarrow> True | Some s \<Rightarrow> length s \<le> 500)"

text \<open>
  The \<^verbatim>\<open>movimiento\<close> object of a 201 response. Each numeric field holds the integer
  its value denotes: the handler sends \<^verbatim>\<open>cantidad_nueva\<close> as it computed it, a string
  when the quantity of an entry or the target of an adjustment was one.
\<close>

record movimiento_json =
  json_producto_id :: int
  json_producto_nombre :: string
  json_tipo :: tipo_mov
  json_cantidad :: int
  json_cantidad_anterior :: int
  json_cantidad_nueva :: int
  json_motivo :: "string option"
  json_usuario_id :: int

text \<open>
  The responses: 403, 400 (validation), 404, 400 (insufficient stock, with the
  available and the requested quantity of its message), 201, 200 and 500.
\<close>

datatype response =
    AccesoDenegado
  | DatosInvalidos
  | ProductoNoEncontrado
  | StockInsuficiente int int
  | Created movimiento_json
  | Exito
  | ErrorInterno

text \<open>The storage calls a handler awaits, in order.\<close>

datatype access = Select | Transaction | Statement

type_synonym result = "response \<times> db \<times> access list"

definition reply :: "result \<Rightarrow> response" where
  "reply r = fst r"

definition store :: "result \<Rightarrow> db" where
  "store r = fst (snd r)"

definition accesses :: "result \<Rightarrow> access list" where
  "accesses r = snd (snd r)"

text \<open>
  POST /entrada. Where the source compares, subtracts or parses the quantity, and where a
  statement compares the product id with the key, the value is read as the integer it
  denotes (\<open>num\<close>); where the source adds, it is JavaScript's \<^verbatim>\<open>+\<close>.
\<close>

definition entrada :: "env \<Rightarrow> req_user \<Rightarrow> inv_body \<Rightarrow> db \<Rightarrow> result" where
  "entrada e u b d =
     (if \<not> perm_all u \<and> \<not> perm_inventory u then (AccesoDenegado, d, [])
      else if \<not> inventoryValidation b then (DatosInvalidos, d, [])
      else
        let pid = req_producto_id b;
            cant = req_cantidad b
        in case select_producto_activo e d (num pid) of
             Inl err \<Rightarrow> (ErrorInterno, d, [Select])
           | Inr [] \<Rightarrow> (ProductoNoEncontrado, d, [Select])
           | Inr (producto # rest) \<Rightarrow>
               let anterior = fila_stock_actual producto;
                   nueva = js_plus anterior cant;
                   queries = [InsertMovimientoParams pid Entrada cant anterior nueva
                                (req_motivo b) (user_id u),
                              UpdateStockParams nueva pid]
               in (case executeTransaction e queries d of
                    Inl err \<Rightarrow> (ErrorInterno, d, [Select, Transaction])
                  | Inr d' \<Rightarrow>
                      (Created \<lparr>json_producto_id = num pid, json_producto_nombre = fila_nombre producto,
                                json_tipo = Entrada, json_cantidad = num cant,
                                json_cantidad_anterior = anterior, json_cantidad_nueva = num nueva,
                                json_motivo = req_motivo b, json_usuario_id = user_id u\<rparr>,
                       d', [Select, Transaction])))"

text \<open>POST /salida.\<close>

definition salida :: "env \<Rightarrow> req_user \<Rightarrow> inv_body \<Rightarrow> db \<Rightarrow> result" where
  "salida e u b d =
     (if \<not> perm_all u \<and> \<not> perm_inventory u then (AccesoDenegado, d, [])
      else if \<not> inventoryValidation b then (DatosInvalidos, d, [])
      else
        let pid = req_producto_id b;
            cant = req_cantidad b
        in case select_producto_activo e d (num pid) of
             Inl err \<Rightarrow> (ErrorInterno, d, [Select])
           | Inr [] \<Rightarrow> (ProductoNoEncontrado, d, [Select])
           | Inr (producto # rest) \<Rightarrow>
               let anterior = fila_stock_actual producto
               in if anterior < num cant then (StockInsuficiente anterior (num cant), d, [Select])
                  else
                    let nueva = anterior - num cant;
                        queries = [InsertMovimientoParams pid Salida cant anterior (JNum (of_int nueva))
                                     (req_motivo b) (user_id u),
                                   UpdateStockParams (JNum (of_int nueva)) pid]
                    in (case executeTransaction e queries d of
                         Inl err \<Rightarrow> (ErrorInterno, d, [Select, Transaction])
                       | Inr d' \<Rightarrow>
                           (Created \<lparr>json_producto_id = num pid, json_producto_nombre = fila_nombre producto,
                                     json_tipo = Salida, json_cantidad = num cant,
                                     json_cantidad_anterior = anterior, json_cantidad_nueva = nueva,
                                     json_motivo = req_motivo b, json_usuario_id = user_id u\<rparr>,
                            d', [Select, Transaction])))"

text \<open>POST /ajuste.\<close>

definition ajuste :: "env \<Rightarrow> req_user \<Rightarrow> inv_body \<Rightarrow> db \<Rightarrow> result" where
  "ajuste e u b d =
     (if \<not> perm_all u \<and> \<not> perm_inventory u then (AccesoDenegado, d, [])
      else if \<not> inventoryValidation b then (DatosInvalidos, d, [])
      else
        let pid = req_producto_id b;
            cant = req_cantidad b
        in case select_producto_activo e d (num pid) of
             Inl err \<Rightarrow> (ErrorInterno, d, [Select])
           | Inr [] \<Rightarrow> (ProductoNoEncontrado, d, [Select])
           | Inr (producto # rest) \<Rightarrow>
               let anterior = fila_stock_actual producto;
                   nueva = cant;
                   queries = [InsertMovimientoParams pid Ajuste (JNum (of_int \<bar>num nueva - anterior\<bar>)) anterior nueva
                                (req_motivo b) (user_id u),
                              UpdateStockParams nueva pid]
               in (case executeTransaction e queries d of
                    Inl err \<Rightarrow> (ErrorInterno, d, [Select, Transaction])
                  | Inr d' \<Rightarrow>
                      (Created \<lparr>json_producto_id = num pid, json_producto_nombre = fila_nombre producto,
                                json_tipo = Ajuste, json_cantidad = \<bar>num nueva - anterior\<bar>,
                                json_cantidad_anterior = anterior, json_cantidad_nueva = num nueva,
                                json_motivo = req_motivo b, json_usuario_id = user_id u\<rparr>,
                       d', [Select, Transaction])))"

text \<open>The endpoint for a movement of kind \<open>t\<close>.\<close>

definition movement :: "tipo_mov \<Rightarrow> env \<Rightarrow> req_user \<Rightarrow> inv_body \<Rightarrow> db \<Rightarrow> result" where
  "movement t = (case t of Entrada \<Rightarrow> entrada | Salida \<Rightarrow> salida | Ajuste \<Rightarrow> ajuste)"

section \<open>routes/products.js: the product handlers\<close>

text \<open>\<^verbatim>\<open>req.body\<close> of POST and PUT /api/products. No field is validated.\<close>

record prod_body =
  pb_nombre :: string
  pb_descripcion :: "string option"
  pb_precio :: rat
  pb_stock :: int
  pb_stock_minimo :: int
  pb_categoria_id :: int

text \<open>\<^verbatim>\<open>descripcion || ''\<close>.\<close>

definition or_empty :: "string option \<Rightarrow> string" where
  "or_empty s = (case s of None \<Rightarrow> [] | Some x \<Rightarrow> x)"

text \<open>POST /api/products.\<close>

definition crear_producto :: "env \<Rightarrow> req_user \<Rightarrow> prod_body \<Rightarrow> db \<Rightarrow> result" where
  "crear_producto e u b d =
     (if \<not> perm_all u \<and> \<not> perm_products u then (AccesoDenegado, d, [])
      else
        let cod = ''PROD-'' @ decimal (now e)
        in case executeQuery e (InsertProducto cod (pb_nombre b) (or_empty (pb_descripcion b))
                  (pb_precio b) (pb_stock b) (pb_stock_minimo b) (pb_categoria_id b)) d of
             Inl err \<Rightarrow> (ErrorInterno, d, [Statement])
           | Inr (n, d') \<Rightarrow> (Exito, d', [Statement]))"

text \<open>PUT /api/products/:id.\<close>

definition actualizar_producto :: "env \<Rightarrow> req_user \<Rightarrow> int \<Rightarrow> prod_body \<Rightarrow> db \<Rightarrow> result" where
  "actualizar_producto e u pid b d =
     (if \<not> perm_all u \<and> \<not> perm_products u then (AccesoDenegado, d, [])
      else
        case executeQuery e (UpdateProducto (pb_nombre b) (or_empty (pb_descripcion b))
               (pb_precio b) (pb_stock b) (pb_stock_minimo b) (pb_categoria_id b) pid) d of
          Inl err \<Rightarrow> (ErrorInterno, d, [Statement])
        | Inr (n, d') \<Rightarrow>
            if n = 0 then (ProductoNoEncontrado, d', [Statement])
            else (Exito, d', [Statement]))"

text \<open>DELETE /api/products/:id (soft delete).\<close>

definition eliminar_producto :: "env \<Rightarrow> req_user \<Rightarrow> int \<Rightarrow> db \<Rightarrow> result" where
  "eliminar_producto e u pid d =
     (if \<not> perm_all u \<and> \<not> perm_products u then (AccesoDenegado, d, [])
      else
        case executeQuery e (DesactivarProducto pid) d of
          Inl err \<Rightarrow> (ErrorInterno, d, [Statement])
        | Inr (n, d') \<Rightarrow>
            if n = 0 then (ProductoNoEncontrado, d', [Statement])
            else (Exito, d', [Statement]))"

section \<open>Operations of the system\<close>

text \<open>
  Every handler of the repository that writes storage. The handlers of routes/users.js
  and routes/auth.js write the table \<^verbatim>\<open>usuarios\<close> only, those of
  routes/categories.js the table \<^verbatim>\<open>categorias\<close> only, and routes/reports.js reads;
  \<open>OtraRuta\<close> stands for any of them, with its effect on \<^verbatim>\<open>usuarios\<close>.
\<close>

datatype operation =
    Movimiento tipo_mov env req_user inv_body
  | CrearProducto env req_user prod_body
  | ActualizarProducto env req_user int prod_body
  | EliminarProducto env req_user int
  | OtraRuta "(int \<rightharpoonup> usuario) \<Rightarrow> (int \<rightharpoonup> usuario)"

fun perform :: "operation \<Rightarrow> db \<Rightarrow> result" where
  "perform (Movimiento t e u b) d = movement t e u b d"
| "perform (CrearProducto e u b) d = crear_producto e u b d"
| "perform (ActualizarProducto e u pid b) d = actualizar_producto e u pid b d"
| "perform (EliminarProducto e u pid) d = eliminar_producto e u pid d"
| "perform (OtraRuta f) d = (Exito, d\<lparr>usuarios := f (usuarios d)\<rparr>, [Statement])"

text \<open>Operations handled one after another.\<close>

fun run :: "operation list \<Rightarrow> db \<Rightarrow> db" where
  "run [] d = d"
| "run (x # xs) d = run xs (store (perform x d))"

text \<open>The most recently committed movement of a product.\<close>

definition ultimo_movimiento :: "db \<Rightarrow> int \<Rightarrow> movimiento option" where
  "ultimo_movimiento d pid =
     (let ms = filter (\<lambda>m. producto_id m = pid) (movimientos_inventario d)
      in if ms = [] then None else Some (last ms))"

text \<open>The stock a movement of each kind leaves, from its snapshot and its input.\<close>

definition stock_formula :: "tipo_mov \<Rightarrow> int \<Rightarrow> int \<Rightarrow> int" where
  "stock_formula t anterior q = (case t of Entrada \<Rightarrow> anterior + q | Salida \<Rightarrow> anterior - q | Ajuste \<Rightarrow> q)"

text \<open>A ledger row agrees with the rule of its kind.\<close>

definition movimiento_coherente :: "movimiento \<Rightarrow> bool" where
  "movimiento_coherente m \<longleftrightarrow>
     (case tipo m of
        Entrada \<Rightarrow> cantidad_nueva m = cantidad_anterior m + cantidad m
      | Salida \<Rightarrow> cantidad_nueva m = cantidad_anterior m - cantidad m
      | Ajuste \<Rightarrow> cantidad m = \<bar>cantidad_nueva m - cantidad_anterior m\<bar>)"

text \<open>The stock of a product, when the row exists.\<close>

definition stock_de :: "db \<Rightarrow> int \<Rightarrow> int option" where
  "stock_de d pid = map_option stock_actual (productos d pid)"

text \<open>The product's stock is the snapshot of its last movement, if it has one.\<close>

definition al_dia :: "db \<Rightarrow> int \<Rightarrow> bool" where
  "al_dia d pid \<longleftrightarrow>
     (case ultimo_movimiento d pid of
        None \<Rightarrow> True
      | Some m \<Rightarrow> stock_de d pid = Some (cantidad_nueva m))"

text \<open>Keys are below their counter, and every movement refers to a product row.\<close>

definition integro :: "db \<Rightarrow> bool" where
  "integro d \<longleftrightarrow>
     (\<forall>k. productos d k \<noteq> None \<longrightarrow> k < auto_productos d) \<and>
     (\<forall>m \<in> set (movimientos_inventario d). productos d (producto_id m) \<noteq> None)"

section \<open>What a committed movement leaves\<close>

text \<open>The quantity the ledger records for an input \<open>q\<close>: for an adjustment, the size of the change.\<close>

definition cantidad_registrada :: "tipo_mov \<Rightarrow> int \<Rightarrow> int \<Rightarrow> int" where
  "cantidad_registrada t anterior q = (case t of Ajuste \<Rightarrow> \<bar>q - anterior\<bar> | _ \<Rightarrow> q)"

text \<open>The database once the row \<open>m\<close> is appended and the stock of its product overwritten.\<close>

definition commit_pair :: "nat \<Rightarrow> movimiento \<Rightarrow> producto \<Rightarrow> db \<Rightarrow> db" where
  "commit_pair t m p d =
     d\<lparr>movimientos_inventario := movimientos_inventario d @ [m],
       auto_movimientos := auto_movimientos d + 1,
       productos := (productos d)(producto_id m \<mapsto> p\<lparr>stock_actual := cantidad_nueva m, updated_at := t\<rparr>)\<rparr>"

text \<open>
  The stock after and the quantity as a movement handler of kind \<open>t\<close> passes them to
  its statements, from the stock before \<open>a\<close> and the quantity \<open>v\<close> of the request.
\<close>

definition stock_escrito :: "tipo_mov \<Rightarrow> int \<Rightarrow> jsval \<Rightarrow> jsval" where
  "stock_escrito t a v =
     (case t of Entrada \<Rightarrow> js_plus a v | Salida \<Rightarrow> JNum (of_int (a - num v)) | Ajuste \<Rightarrow> v)"

definition cantidad_escrita :: "tipo_mov \<Rightarrow> int \<Rightarrow> jsval \<Rightarrow> jsval" where
  "cantidad_escrita t a v = (case t of Ajuste \<Rightarrow> JNum (of_int \<bar>num v - a\<bar>) | _ \<Rightarrow> v)"

text \<open>The ledger row and the response object of a movement of kind \<open>t\<close> on the product row \<open>p\<close>.\<close>

definition expected_row :: "tipo_mov \<Rightarrow> env \<Rightarrow> req_user \<Rightarrow> inv_body \<Rightarrow> producto \<Rightarrow> db \<Rightarrow> movimiento" where
  "expected_row t e u b p d =
     \<lparr>mov_id = auto_movimientos d, producto_id = num (req_producto_id b), tipo = t,
      cantidad = cantidad_registrada t (stock_actual p) (num (req_cantidad b)),
      cantidad_anterior = stock_actual p,
      cantidad_nueva = num (stock_escrito t (stock_actual p) (req_cantidad b)),
      motivo = req_motivo b, usuario_id = user_id u, fecha_movimiento = now e\<rparr>"

definition expected_json :: "tipo_mov \<Rightarrow> req_user \<Rightarrow> inv_body \<Rightarrow> producto \<Rightarrow> movimiento_json" where
  "expected_json t u b p =
     \<lparr>json_producto_id = num (req_producto_id b), json_producto_nombre = nombre p,
      json_tipo = t, json_cantidad = cantidad_registrada t (stock_actual p) (num (req_cantidad b)),
      json_cantidad_anterior = stock_actual p,
      json_cantidad_nueva = num (stock_escrito t (stock_actual p) (req_cantidad b)),
      json_motivo = req_motivo b, json_usuario_id = user_id u\<rparr>"

text \<open>No product row has a negative stock.\<close>

definition sin_negativos :: "db \<Rightarrow> bool" where
  "sin_negativos d \<longleftrightarrow> (\<forall>k p. productos d k = Some p \<longrightarrow> 0 \<le> stock_actual p)"

text \<open>The stock value a product creation or update carries is not negative.\<close>

fun stock_enviado_ok :: "operation \<Rightarrow> bool" where
  "stock_enviado_ok (CrearProducto e u b) = (0 \<le> pb_stock b)"
| "stock_enviado_ok (ActualizarProducto e u pid b) = (0 \<le> pb_stock b)"
| "stock_enviado_ok x = True"

text \<open>The operation is a product update addressed to \<open>pid\<close>.\<close>

fun actualiza :: "int \<Rightarrow> operation \<Rightarrow> bool" where
  "actualiza pid (ActualizarProducto e u k b) = (k = pid)"
| "actualiza pid x = False"

text \<open>The operation is one of the three movement endpoints.\<close>

fun es_movimiento :: "operation \<Rightarrow> bool" where
  "es_movimiento (Movimiento t e u b) = True"
| "es_movimiento x = False"

text \<open>The quantity of the request came as a JSON number, not as a string.\<close>

definition cantidad_numerica :: "inv_body \<Rightarrow> bool" where
  "cantidad_numerica b = (case req_cantidad b of JNum r \<Rightarrow> True | JStr s \<Rightarrow> False | JUndefined \<Rightarrow> False)"

text \<open>The operation is not an entry whose quantity came as a string.\<close>

fun entrada_numerica :: "operation \<Rightarrow> bool" where
  "entrada_numerica (Movimiento t e u b) = (t = Entrada \<longrightarrow> cantidad_numerica b)"
| "entrada_numerica x = True"

section \<open>Requests in flight\<close>

text \<open>
  Handlers are \<^verbatim>\<open>async\<close>: while one waits for storage, the event loop runs others.
  Each movement handler awaits twice: the SELECT of the product, then the transaction.
  \<open>movement_read\<close> is the handler up to the result of the SELECT, common to the three;
  the \<open>_commit\<close> functions are the rest of each, run with the row that was read.
\<close>

definition movement_read :: "env \<Rightarrow> req_user \<Rightarrow> inv_body \<Rightarrow> db \<Rightarrow> (response \<times> access list) + fila_producto" where
  "movement_read e u b d =
     (if \<not> perm_all u \<and> \<not> perm_inventory u then Inl (AccesoDenegado, [])
      else if \<not> inventoryValidation b then Inl (DatosInvalidos, [])
      else case select_producto_activo e d (num (req_producto_id b)) of
             Inl err \<Rightarrow> Inl (ErrorInterno, [Select])
           | Inr [] \<Rightarrow> Inl (ProductoNoEncontrado, [Select])
           | Inr (producto # rest) \<Rightarrow> Inr producto)"

definition entrada_commit :: "env \<Rightarrow> req_user \<Rightarrow> inv_body \<Rightarrow> fila_producto \<Rightarrow> db \<Rightarrow> result" where
  "entrada_commit e u b producto d =
     (let pid = req_producto_id b;
          cant = req_cantidad b
      in
        let anterior = fila_stock_actual producto;
            nueva = js_plus anterior cant;
            queries = [InsertMovimientoParams pid Entrada cant anterior nueva
                         (req_motivo b) (user_id u),
                       UpdateStockParams nueva pid]
        in case executeTransaction e queries d of
             Inl err \<Rightarrow> (ErrorInterno, d, [Select, Transaction])
           | Inr d' \<Rightarrow>
               (Created \<lparr>json_producto_id = num pid, json_producto_nombre = fila_nombre producto,
                         json_tipo = Entrada, json_cantidad = num cant,
                         json_cantidad_anterior = anterior, json_cantidad_nueva = num nueva,
                         json_motivo = req_motivo b, json_usuario_id = user_id u\<rparr>,
                d', [Select, Transaction]))"

definition salida_commit :: "env \<Rightarrow> req_user \<Rightarrow> inv_body \<Rightarrow> fila_producto \<Rightarrow> db \<Rightarrow> result" where
  "salida_commit e u b producto d =
     (let pid = req_producto_id b;
          cant = req_cantidad b
      in
        let anterior = fila_stock_actual producto
        in if anterior < num cant then (StockInsuficiente anterior (num cant), d, [Select])
           else
             let nueva = anterior - num cant;
                 queries = [InsertMovimientoParams pid Salida cant anterior (JNum (of_int nueva))
                              (req_motivo b) (user_id u),
                            UpdateStockParams (JNum (of_int nueva)) pid]
             in case executeTransaction e queries d of
                  Inl err \<Rightarrow> (ErrorInterno, d, [Select, Transaction])
                | Inr d' \<Rightarrow>
                    (Created \<lparr>json_producto_id = num pid, json_producto_nombre = fila_nombre producto,
                              json_tipo = Salida, json_cantidad = num cant,
                              json_cantidad_anterior = anterior, json_cantidad_nueva = nueva,
                              json_motivo = req_motivo b, json_usuario_id = user_id u\<rparr>,
                     d', [Select, Transaction]))"

definition ajuste_commit :: "env \<Rightarrow> req_user \<Rightarrow> inv_body \<Rightarrow> fila_producto \<Rightarrow> db \<Rightarrow> result" where
  "ajuste_commit e u b producto d =
     (let pid = req_producto_id b;
          cant = req_cantidad b
      in
        let anterior = fila_stock_actual producto;
            nueva = cant;
            queries = [InsertMovimientoParams pid Ajuste (JNum (of_int \<bar>num nueva - anterior\<bar>)) anterior nueva
                         (req_motivo b) (user_id u),
                       UpdateStockParams nueva pid]
        in case executeTransaction e queries d of
             Inl err \<Rightarrow> (ErrorInterno, d, [Select, Transaction])
           | Inr d' \<Rightarrow>
               (Created \<lparr>json_producto_id = num pid, json_producto_nombre = fila_nombre producto,
                         json_tipo = Ajuste, json_cantidad = \<bar>num nueva - anterior\<bar>,
                         json_cantidad_anterior = anterior, json_cantidad_nueva = num nueva,
                         json_motivo = req_motivo b, json_usuario_id = user_id u\<rparr>,
                d', [Select, Transaction]))"

text \<open>The commit part of the endpoint a request is sent to.\<close>

definition movement_commit :: "tipo_mov \<Rightarrow> env \<Rightarrow> req_user \<Rightarrow> inv_body \<Rightarrow> fila_producto \<Rightarrow> db \<Rightarrow> result" where
  "movement_commit t = (case t of Entrada \<Rightarrow> entrada_commit | Salida \<Rightarrow> salida_commit | Ajuste \<Rightarrow> ajuste_commit)"

text \<open>
  A movement request is not yet started, or suspended at the await of its transaction
  with the row it has read, or answered.
\<close>

datatype en_vuelo =
    Pendiente tipo_mov env req_user inv_body
  | Leido tipo_mov env req_user inv_body fila_producto
  | Respondido response

text \<open>Resuming a request runs it up to its next await.\<close>

fun resume :: "en_vuelo \<Rightarrow> db \<Rightarrow> en_vuelo \<times> db" where
  "resume (Pendiente t e u b) d =
     (case movement_read e u b d of
        Inl (r, acc) \<Rightarrow> (Respondido r, d)
      | Inr producto \<Rightarrow> (Leido t e u b producto, d))"
| "resume (Leido t e u b producto) d =
     (Respondido (reply (movement_commit t e u b producto d)),
      store (movement_commit t e u b producto d))"
| "resume (Respondido r) d = (Respondido r, d)"

text \<open>A schedule names, step by step, the request that is resumed.\<close>

fun schedule :: "nat list \<Rightarrow> en_vuelo list \<Rightarrow> db \<Rightarrow> en_vuelo list \<times> db" where
  "schedule [] rs d = (rs, d)"
| "schedule (i # js) rs d =
     (if i < length rs
      then schedule js (rs[i := fst (resume (rs ! i) d)]) (snd (resume (rs ! i) d))
      else schedule js rs d)"

text \<open>Successive snapshots agree: each row starts from the stock the previous one left.\<close>

fun telescopa :: "movimiento list \<Rightarrow> bool" where
  "telescopa [] = True"
| "telescopa [m] = True"
| "telescopa (m # n # ms) = (cantidad_nueva m = cantidad_anterior n \<and> telescopa (n # ms))"

text \<open>The rows chain from the stock \<open>s\<close>: the first starts from \<open>s\<close>, each next from where the last ended.\<close>

fun encadena :: "int \<Rightarrow> movimiento list \<Rightarrow> bool" where
  "encadena s [] = True"
| "encadena s (m # ms) = (cantidad_anterior m = s \<and> encadena (cantidad_nueva m) ms)"

section \<open>routes/inventory.js: the movement list\<close>












section \<open>routes/reports.js: the report of movements\<close>











section \<open>Scenarios\<close>

definition admin :: req_user where
  "admin = \<lparr>user_id = 1, perm_all = True, perm_inventory = False, perm_products = False,
             perm_reports = False\<rparr>"

definition sin_fallas :: "nat \<Rightarrow> env" where
  "sin_fallas t = \<lparr>now = t, select_fails = False, tx_fault = None\<rparr>"

definition con_falla :: "nat \<Rightarrow> nat \<Rightarrow> env" where
  "con_falla t k = \<lparr>now = t, select_fails = False, tx_fault = Some k\<rparr>"

definition pedido :: "tipo_mov \<Rightarrow> int \<Rightarrow> rat \<Rightarrow> inv_body" where
  "pedido t pid q = \<lparr>req_producto_id = JNum (of_int pid), req_tipo = tipo_literal t,
                     req_cantidad = JNum q, req_motivo = None\<rparr>"

text \<open>The same request with the quantity sent as a string.\<close>

definition pedido_texto :: "tipo_mov \<Rightarrow> int \<Rightarrow> string \<Rightarrow> inv_body" where
  "pedido_texto t pid s = \<lparr>req_producto_id = JNum (of_int pid), req_tipo = tipo_literal t,
                           req_cantidad = JStr s, req_motivo = None\<rparr>"

definition teclado :: "int \<Rightarrow> producto" where
  "teclado s = \<lparr>codigo = ''PROD-1'', nombre = ''Teclado'', descripcion = [], precio = 25,
                stock_minimo = 10, stock_actual = s, categoria_id = 1, activo = True,
                updated_at = 0\<rparr>"

text \<open>One product, number 1, with stock \<open>s\<close> and minimum 10; one user; an empty ledger.\<close>

definition almacen :: "int \<Rightarrow> db" where
  "almacen s = \<lparr>productos = [1 \<mapsto> teclado s], movimientos_inventario = [],
                usuarios = [1 \<mapsto> \<lparr>usr_nombre = ''Ana'', usr_apellido = ''Paz''\<rparr>],
                auto_productos = 2, auto_movimientos = 1\<rparr>"

definition edicion :: "int \<Rightarrow> prod_body" where
  "edicion s = \<lparr>pb_nombre = ''Teclado'', pb_descripcion = None, pb_precio = 25, pb_stock = s,
                pb_stock_minimo = 10, pb_categoria_id = 1\<rparr>"










section \<open>The persistence layer: all or nothing\<close>

lemma run_queries_all_or_nothing:
  "run_queries t f qs d = None \<or> run_queries t f qs d = Some (fold (apply_query t) qs d)"
  by (induction qs arbitrary: f d) (auto split: option.splits nat.splits)

lemma executeTransaction_cases:
  "executeTransaction e ss d = Inl PersistenceFailure \<or>
   (\<exists>qs. bind_all ss = Some qs \<and> executeTransaction e ss d = Inr (fold (apply_query (now e)) qs d))"
proof (cases "bind_all ss")
  case None
  then show ?thesis by (simp add: executeTransaction_def)
next
  case (Some qs)
  with run_queries_all_or_nothing [of "now e" "tx_fault e" qs d] show ?thesis
    by (auto simp: executeTransaction_def)
qed

section \<open>Strings, numbers and columns\<close>

lemma isInt_columna: "isInt m v \<Longrightarrow> columna_int v = Some (num v)"
proof (cases v)
  case (JNum r)
  assume "isInt m v"
  then obtain n where "r = of_int n" using JNum by (auto simp: isInt_def)
  then show ?thesis using JNum by (simp add: columna_int_def num_def)
next
  case (JStr s)
  assume "isInt m v"
  then show ?thesis using JStr
    by (simp add: isInt_def columna_int_def num_def split: option.splits)
next
  case JUndefined
  assume "isInt m v"
  then show ?thesis using JUndefined by (simp add: isInt_def)
qed

lemma isInt_num: "isInt m v \<Longrightarrow> m \<le> num v"
  by (auto simp: isInt_def num_def split: jsval.splits option.splits)

lemma valid_cantidad: "inventoryValidation b \<Longrightarrow> 1 \<le> num (req_cantidad b)"
  by (simp add: inventoryValidation_def isInt_num)

lemma valid_columnas:
  assumes "inventoryValidation b"
  shows "columna_int (req_cantidad b) = Some (num (req_cantidad b))"
    and "columna_int (req_producto_id b) = Some (num (req_producto_id b))"
proof -
  from assms have "isInt 1 (req_cantidad b)" "isInt 1 (req_producto_id b)"
    by (simp_all add: inventoryValidation_def)
  then show "columna_int (req_cantidad b) = Some (num (req_cantidad b))"
    and "columna_int (req_producto_id b) = Some (num (req_producto_id b))"
    by (simp_all add: isInt_columna [of 1])
qed

lemma columna_of_int [simp]: "columna_int (JNum (of_int n)) = Some n"
  by (simp add: columna_int_def)

lemma num_of_int [simp]: "num (JNum (of_int n)) = n"
  by (simp add: num_def)

lemma columna_diff [simp]: "columna_int (JNum (of_int a - of_int b)) = Some (a - b)"
  using columna_of_int [of "a - b"] by simp

lemma num_diff [simp]: "num (JNum (of_int a - of_int b)) = a - b"
  using num_of_int [of "a - b"] by simp

lemma columna_abs [simp]: "columna_int (JNum \<bar>of_int a - of_int b\<bar>) = Some \<bar>a - b\<bar>"
  using columna_of_int [of "\<bar>a - b\<bar>"] by simp

lemma num_abs [simp]: "num (JNum \<bar>of_int a - of_int b\<bar>) = \<bar>a - b\<bar>"
  using num_of_int [of "\<bar>a - b\<bar>"] by simp

text \<open>A number added to a number is their sum, in the column too.\<close>

lemma js_plus_number:
  assumes "isInt m (JNum r)"
  shows "columna_int (js_plus a (JNum r)) = Some (a + num (JNum r))"
    and "num (js_plus a (JNum r)) = a + num (JNum r)"
proof -
  from assms obtain n where n: "r = of_int n" by (auto simp: isInt_def)
  then have "of_int a + r = of_int (a + n)" by simp
  then have "round (of_int a + r) = a + n" "\<lfloor>of_int a + r\<rfloor> = a + n" "\<lfloor>r\<rfloor> = n"
    using n by (simp_all only: round_of_int floor_of_int)
  then show "columna_int (js_plus a (JNum r)) = Some (a + num (JNum r))"
    and "num (js_plus a (JNum r)) = a + num (JNum r)"
    by (simp_all add: js_plus_def columna_int_def num_def)
qed

text \<open>What the column makes of the stock a handler writes is the integer that value denotes.\<close>

lemma columna_stock_escrito:
  assumes "inventoryValidation b" and "columna_int (stock_escrito t a (req_cantidad b)) = Some n"
  shows "num (stock_escrito t a (req_cantidad b)) = n"
proof (cases t)
  case Entrada
  show ?thesis
  proof (cases "req_cantidad b")
    case (JNum r)
    then have "isInt 1 (JNum r)" using assms(1) by (simp add: inventoryValidation_def)
    from js_plus_number [OF this, of a] assms(2) show ?thesis
      by (simp add: Entrada JNum stock_escrito_def)
  next
    case (JStr s)
    then show ?thesis using assms(2)
      by (simp add: Entrada stock_escrito_def js_plus_def columna_int_def num_def)
  next
    case JUndefined
    then show ?thesis using assms(2)
      by (simp add: Entrada stock_escrito_def js_plus_def columna_int_def)
  qed
next
  case Salida
  then show ?thesis using assms(2) by (simp add: stock_escrito_def)
next
  case Ajuste
  then show ?thesis using assms(2) valid_columnas(1) [OF assms(1)] by (simp add: stock_escrito_def)
qed

text \<open>
  Exits and adjustments write the stock of the rule of their kind; so do entries whose
  quantity is a number.
\<close>

lemma columna_stock_formula:
  assumes "inventoryValidation b" and "t = Entrada \<longrightarrow> (\<exists>r. req_cantidad b = JNum r)"
  shows "columna_int (stock_escrito t a (req_cantidad b)) = Some (stock_formula t a (num (req_cantidad b)))"
proof (cases t)
  case Entrada
  then obtain r where r: "req_cantidad b = JNum r" using assms(2) by blast
  then have "isInt 1 (JNum r)" using assms(1) by (simp add: inventoryValidation_def)
  from js_plus_number(1) [OF this, of a] show ?thesis
    by (simp add: Entrada r stock_escrito_def stock_formula_def)
next
  case Salida
  then show ?thesis by (simp add: stock_escrito_def stock_formula_def)
next
  case Ajuste
  then show ?thesis using valid_columnas(1) [OF assms(1)]
    by (simp add: stock_escrito_def stock_formula_def)
qed

lemma columna_cantidad_escrita:
  assumes "inventoryValidation b"
  shows "columna_int (cantidad_escrita t a (req_cantidad b)) =
           Some (cantidad_registrada t a (num (req_cantidad b)))"
  using valid_columnas(1) [OF assms]
  by (cases t) (simp_all add: cantidad_escrita_def cantidad_registrada_def)

section \<open>The read half of a movement handler\<close>

lemma movement_read_invalid:
  "perm_all u \<or> perm_inventory u \<Longrightarrow> \<not> inventoryValidation b \<Longrightarrow>
   movement_read e u b d = Inl (DatosInvalidos, [])"
  by (auto simp: movement_read_def)

lemma movement_read_found:
  "perm_all u \<or> perm_inventory u \<Longrightarrow> inventoryValidation b \<Longrightarrow> \<not> select_fails e \<Longrightarrow>
   productos d (num (req_producto_id b)) = Some p \<Longrightarrow> activo p \<Longrightarrow>
   movement_read e u b d = Inr \<lparr>fila_id = num (req_producto_id b), fila_nombre = nombre p,
                                 fila_stock_actual = stock_actual p\<rparr>"
  by (auto simp: movement_read_def select_producto_activo_def)

lemma movement_read_missing:
  "perm_all u \<or> perm_inventory u \<Longrightarrow> inventoryValidation b \<Longrightarrow> \<not> select_fails e \<Longrightarrow>
   (\<forall>p. productos d (num (req_producto_id b)) = Some p \<longrightarrow> \<not> activo p) \<Longrightarrow>
   movement_read e u b d = Inl (ProductoNoEncontrado, [Select])"
  by (auto simp: movement_read_def select_producto_activo_def split: option.splits)

lemma movement_read_Inr:
  "movement_read e u b d = Inr f \<Longrightarrow>
   (perm_all u \<or> perm_inventory u) \<and> inventoryValidation b \<and>
   (\<exists>p. productos d (num (req_producto_id b)) = Some p \<and> activo p \<and>
        f = \<lparr>fila_id = num (req_producto_id b), fila_nombre = nombre p,
             fila_stock_actual = stock_actual p\<rparr>)"
  by (auto simp: movement_read_def select_producto_activo_def split: if_splits option.splits list.splits sum.splits)

lemma movement_read_Inl:
  "movement_read e u b d = Inl (r, acc) \<Longrightarrow>
   r \<in> {AccesoDenegado, DatosInvalidos, ErrorInterno, ProductoNoEncontrado} \<and> Transaction \<notin> set acc"
  by (auto simp: movement_read_def select_producto_activo_def split: if_splits option.splits list.splits sum.splits)

section \<open>The movement handlers, case by case\<close>

text \<open>A handler run without interruption is its two halves on the same database.\<close>

lemma entrada_split:
  "entrada e u b d =
     (case movement_read e u b d of
        Inl (r, acc) \<Rightarrow> (r, d, acc)
      | Inr producto \<Rightarrow> entrada_commit e u b producto d)"
  by (simp add: entrada_def movement_read_def entrada_commit_def Let_def
      split: sum.splits list.splits)

lemma salida_split:
  "salida e u b d =
     (case movement_read e u b d of
        Inl (r, acc) \<Rightarrow> (r, d, acc)
      | Inr producto \<Rightarrow> salida_commit e u b producto d)"
  by (simp add: salida_def movement_read_def salida_commit_def Let_def
      split: sum.splits list.splits)

lemma ajuste_split:
  "ajuste e u b d =
     (case movement_read e u b d of
        Inl (r, acc) \<Rightarrow> (r, d, acc)
      | Inr producto \<Rightarrow> ajuste_commit e u b producto d)"
  by (simp add: ajuste_def movement_read_def ajuste_commit_def Let_def
      split: sum.splits list.splits)

lemma movement_split:
  "movement t e u b d =
     (case movement_read e u b d of
        Inl (r, acc) \<Rightarrow> (r, d, acc)
      | Inr producto \<Rightarrow> movement_commit t e u b producto d)"
  by (cases t; cases "movement_read e u b d")
     (simp_all add: movement_def movement_commit_def entrada_split salida_split ajuste_split)

lemma entrada_eq: "entrada = movement Entrada"
  by (simp add: movement_def)

lemma salida_eq: "salida = movement Salida"
  by (simp add: movement_def)

lemma ajuste_eq: "ajuste = movement Ajuste"
  by (simp add: movement_def)

text \<open>The transaction of a movement: it fails, or it leaves the row and the stock together.\<close>

lemma executeTransaction_pair:
  assumes "productos d pid' = Some p" and "columna_int pid = Some pid'" and "columna_int c = Some c'"
  shows "executeTransaction e [InsertMovimientoParams pid k c ant nue mot uid, UpdateStockParams nue pid] d =
     (case columna_int nue of
        None \<Rightarrow> Inl PersistenceFailure
      | Some n \<Rightarrow>
          if tx_fault e = Some 0 \<or> tx_fault e = Some 1 then Inl PersistenceFailure
          else Inr (commit_pair (now e) \<lparr>mov_id = auto_movimientos d, producto_id = pid', tipo = k,
                 cantidad = c', cantidad_anterior = ant, cantidad_nueva = n, motivo = mot,
                 usuario_id = uid, fecha_movimiento = now e\<rparr> p d))"
proof (cases "columna_int nue")
  case None
  then show ?thesis using assms by (simp add: executeTransaction_def bind_params_def)
next
  case (Some n)
  have b: "bind_all [InsertMovimientoParams pid k c ant nue mot uid, UpdateStockParams nue pid] =
      Some [InsertMovimiento pid' k c' ant n mot uid, UpdateStock n pid']"
    using assms Some by (simp add: bind_params_def)
  show ?thesis
  proof (cases "tx_fault e")
    case None
    then show ?thesis using assms(1) Some unfolding executeTransaction_def b by (simp add: commit_pair_def)
  next
    case f: (Some k)
    show ?thesis
    proof (cases k)
      case 0
      then show ?thesis using f Some unfolding executeTransaction_def b by simp
    next
      case (Suc k')
      then show ?thesis using f Some assms(1)
        unfolding executeTransaction_def b by (cases k') (simp_all add: commit_pair_def)
    qed
  qed
qed

lemma movement_commit_cases:
  assumes "f = \<lparr>fila_id = num (req_producto_id b), fila_nombre = nombre p, fila_stock_actual = stock_actual p\<rparr>"
  shows "movement_commit t e u b f d =
     (if t = Salida \<and> stock_actual p < num (req_cantidad b)
      then (StockInsuficiente (stock_actual p) (num (req_cantidad b)), d, [Select])
      else case executeTransaction e
                  [InsertMovimientoParams (req_producto_id b) t
                     (cantidad_escrita t (stock_actual p) (req_cantidad b)) (stock_actual p)
                     (stock_escrito t (stock_actual p) (req_cantidad b)) (req_motivo b) (user_id u),
                   UpdateStockParams (stock_escrito t (stock_actual p) (req_cantidad b)) (req_producto_id b)] d of
             Inl err \<Rightarrow> (ErrorInterno, d, [Select, Transaction])
           | Inr d' \<Rightarrow> (Created (expected_json t u b p), d', [Select, Transaction]))"
  using assms
  by (cases t; cases "executeTransaction e
                  [InsertMovimientoParams (req_producto_id b) t
                     (cantidad_escrita t (stock_actual p) (req_cantidad b)) (stock_actual p)
                     (stock_escrito t (stock_actual p) (req_cantidad b)) (req_motivo b) (user_id u),
                   UpdateStockParams (stock_escrito t (stock_actual p) (req_cantidad b)) (req_producto_id b)] d")
     (simp_all add: movement_commit_def entrada_commit_def salida_commit_def ajuste_commit_def
        Let_def cantidad_registrada_def cantidad_escrita_def stock_escrito_def expected_json_def)

text \<open>The commit half, once the row is read: the three outcomes.\<close>

lemma movement_commit_result:
  assumes "inventoryValidation b" and "productos d (num (req_producto_id b)) = Some p"
    and "f = \<lparr>fila_id = num (req_producto_id b), fila_nombre = nombre p, fila_stock_actual = stock_actual p\<rparr>"
  shows "movement_commit t e u b f d =
     (if t = Salida \<and> stock_actual p < num (req_cantidad b)
      then (StockInsuficiente (stock_actual p) (num (req_cantidad b)), d, [Select])
      else if columna_int (stock_escrito t (stock_actual p) (req_cantidad b)) = None \<or>
              tx_fault e = Some 0 \<or> tx_fault e = Some 1
      then (ErrorInterno, d, [Select, Transaction])
      else (Created (expected_json t u b p), commit_pair (now e) (expected_row t e u b p d) p d,
            [Select, Transaction]))"
proof (cases "columna_int (stock_escrito t (stock_actual p) (req_cantidad b))")
  case None
  show ?thesis
    unfolding movement_commit_cases [OF assms(3)]
      executeTransaction_pair [OF assms(2) valid_columnas(2) [OF assms(1)] columna_cantidad_escrita [OF assms(1)]]
    by (simp add: None)
next
  case (Some n)
  from columna_stock_escrito [OF assms(1) Some] have n: "num (stock_escrito t (stock_actual p) (req_cantidad b)) = n" .
  show ?thesis
    unfolding movement_commit_cases [OF assms(3)]
      executeTransaction_pair [OF assms(2) valid_columnas(2) [OF assms(1)] columna_cantidad_escrita [OF assms(1)]]
    by (simp add: Some n expected_row_def)
qed

lemma movement_ok:
  assumes "perm_all u \<or> perm_inventory u" "inventoryValidation b" "\<not> select_fails e"
    "productos d (num (req_producto_id b)) = Some p" "activo p"
    "t = Salida \<longrightarrow> num (req_cantidad b) \<le> stock_actual p" "tx_fault e = None"
    "columna_int (stock_escrito t (stock_actual p) (req_cantidad b)) \<noteq> None"
  shows "movement t e u b d =
    (Created (expected_json t u b p), commit_pair (now e) (expected_row t e u b p d) p d, [Select, Transaction])"
proof -
  have rd: "movement_read e u b d = Inr \<lparr>fila_id = num (req_producto_id b), fila_nombre = nombre p,
                                 fila_stock_actual = stock_actual p\<rparr>"
    using assms by (simp add: movement_read_found)
  have "\<not> (t = Salida \<and> stock_actual p < num (req_cantidad b))" using assms(6) by auto
  then show ?thesis
    using assms(7,8)
    by (simp add: movement_split rd movement_commit_result [OF assms(2,4) refl])
qed

lemma movement_Created:
  assumes "reply (movement t e u b d) = Created j"
  shows "\<exists>p. (perm_all u \<or> perm_inventory u) \<and> inventoryValidation b \<and>
          productos d (num (req_producto_id b)) = Some p \<and> activo p \<and>
          (t = Salida \<longrightarrow> num (req_cantidad b) \<le> stock_actual p) \<and>
          columna_int (stock_escrito t (stock_actual p) (req_cantidad b)) =
            Some (num (stock_escrito t (stock_actual p) (req_cantidad b))) \<and>
          movement t e u b d =
            (Created (expected_json t u b p), commit_pair (now e) (expected_row t e u b p d) p d,
             [Select, Transaction])"
proof (cases "movement_read e u b d")
  case (Inl a)
  obtain r acc where a: "a = (r, acc)" by (cases a)
  from movement_read_Inl [of e u b d r acc] Inl a
  have "r \<in> {AccesoDenegado, DatosInvalidos, ErrorInterno, ProductoNoEncontrado}" by simp
  moreover have "reply (movement t e u b d) = r"
    by (simp add: movement_split Inl a reply_def)
  ultimately show ?thesis using assms by auto
next
  case (Inr f)
  from movement_read_Inr [OF Inr] obtain p where
    perm: "perm_all u \<or> perm_inventory u" and val: "inventoryValidation b" and
    p: "productos d (num (req_producto_id b)) = Some p" and act: "activo p" and
    f: "f = \<lparr>fila_id = num (req_producto_id b), fila_nombre = nombre p, fila_stock_actual = stock_actual p\<rparr>"
    by blast
  have mv: "movement t e u b d = movement_commit t e u b f d"
    by (simp add: movement_split Inr)
  note cc = movement_commit_result [OF val p f, of t e u]
  show ?thesis
  proof (cases "t = Salida \<and> stock_actual p < num (req_cantidad b)")
    case True
    then have "reply (movement t e u b d) = StockInsuficiente (stock_actual p) (num (req_cantidad b))"
      unfolding mv cc by (simp add: reply_def)
    then show ?thesis using assms by simp
  next
    case False
    show ?thesis
    proof (cases "columna_int (stock_escrito t (stock_actual p) (req_cantidad b)) = None \<or>
              tx_fault e = Some 0 \<or> tx_fault e = Some 1")
      case True
      then have "reply (movement t e u b d) = ErrorInterno"
        unfolding mv cc using False by (simp add: reply_def)
      then show ?thesis using assms by simp
    next
      case nofault: False
      then have m: "movement t e u b d =
        (Created (expected_json t u b p), commit_pair (now e) (expected_row t e u b p d) p d,
             [Select, Transaction])"
        unfolding mv cc using False by simp
      from nofault obtain n where
        n: "columna_int (stock_escrito t (stock_actual p) (req_cantidad b)) = Some n" by auto
      from columna_stock_escrito [OF val n] n have
        "columna_int (stock_escrito t (stock_actual p) (req_cantidad b)) =
            Some (num (stock_escrito t (stock_actual p) (req_cantidad b)))" by simp
      then show ?thesis using perm val p act False m by auto
    qed
  qed
qed

lemma movement_not_Created:
  assumes "\<forall>j. reply (movement t e u b d) \<noteq> Created j"
  shows "store (movement t e u b d) = d \<and> Transaction \<notin> set (accesses (movement t e u b d)) \<or>
         store (movement t e u b d) = d \<and> reply (movement t e u b d) = ErrorInterno"
proof (cases "movement_read e u b d")
  case (Inl a)
  obtain r acc where a: "a = (r, acc)" by (cases a)
  from movement_read_Inl [of e u b d r acc] Inl a
  have "Transaction \<notin> set acc" by simp
  then show ?thesis by (simp add: movement_split Inl a store_def accesses_def)
next
  case (Inr f)
  from movement_read_Inr [OF Inr] obtain p where
    val: "inventoryValidation b" and
    p: "productos d (num (req_producto_id b)) = Some p" and
    f: "f = \<lparr>fila_id = num (req_producto_id b), fila_nombre = nombre p, fila_stock_actual = stock_actual p\<rparr>"
    by blast
  have mv: "movement t e u b d = movement_commit t e u b f d"
    by (simp add: movement_split Inr)
  show ?thesis using assms
    unfolding mv movement_commit_result [OF val p f]
    by (auto simp: reply_def store_def accesses_def split: if_splits)
qed

section \<open>Evaluating the scenarios\<close>

lemmas scenario_defs = admin_def sin_fallas_def con_falla_def pedido_def pedido_texto_def
  teclado_def almacen_def edicion_def tipo_literal_def

lemmas handler_defs = entrada_eq salida_eq ajuste_eq movement_split movement_read_def
  movement_commit_def entrada_commit_def salida_commit_def ajuste_commit_def inventoryValidation_def
  isInt_def num_def select_producto_activo_def executeTransaction_def bind_params_def
  columna_int_def js_plus_def reply_def store_def accesses_def Let_def

lemma valid_pedido: "1 \<le> q \<Longrightarrow> 1 \<le> pid \<Longrightarrow> inventoryValidation (pedido t pid (of_int q))"
  by (cases t) (simp_all add: inventoryValidation_def pedido_def isInt_def tipo_literal_def)

lemma num_pedido [simp]: "num (req_producto_id (pedido t pid q)) = pid" "num (req_cantidad (pedido t pid (of_int n))) = n"
  by (simp_all add: pedido_def num_def)

section \<open>Exits\<close>

text \<open>
  Claim C3. An exit on an active product whose quantity exceeds the current stock fails
  with the insufficient-stock error, which carries the available and the requested
  quantity, and changes nothing; an exit of at most the current stock succeeds and leaves
  the stock reduced by the quantity.
\<close>

theorem salida_checks_stock:
  assumes "perm_all u \<or> perm_inventory u" and "inventoryValidation b" and "\<not> select_fails e"
    and "productos d (num (req_producto_id b)) = Some p" and "activo p"
  shows "(stock_actual p < num (req_cantidad b) \<longrightarrow>
            salida e u b d = (StockInsuficiente (stock_actual p) (num (req_cantidad b)), d, [Select]))
       \<and> (num (req_cantidad b) \<le> stock_actual p \<and> tx_fault e = None \<longrightarrow>
            reply (salida e u b d) =
              Created \<lparr>json_producto_id = num (req_producto_id b), json_producto_nombre = nombre p,
                       json_tipo = Salida, json_cantidad = num (req_cantidad b),
                       json_cantidad_anterior = stock_actual p,
                       json_cantidad_nueva = stock_actual p - num (req_cantidad b),
                       json_motivo = req_motivo b, json_usuario_id = user_id u\<rparr>
          \<and> stock_de (store (salida e u b d)) (num (req_producto_id b)) = Some (stock_actual p - num (req_cantidad b))
          \<and> movimientos_inventario (store (salida e u b d)) =
              movimientos_inventario d @
              [\<lparr>mov_id = auto_movimientos d, producto_id = num (req_producto_id b), tipo = Salida,
                cantidad = num (req_cantidad b), cantidad_anterior = stock_actual p,
                cantidad_nueva = stock_actual p - num (req_cantidad b), motivo = req_motivo b,
                usuario_id = user_id u, fecha_movimiento = now e\<rparr>])"
proof (intro conjI impI)
  assume short: "stock_actual p < num (req_cantidad b)"
  have "movement_read e u b d = Inr \<lparr>fila_id = num (req_producto_id b), fila_nombre = nombre p,
                                 fila_stock_actual = stock_actual p\<rparr>"
    using assms by (simp add: movement_read_found)
  then show "salida e u b d = (StockInsuficiente (stock_actual p) (num (req_cantidad b)), d, [Select])"
    using short by (simp add: salida_eq movement_split movement_commit_result [OF assms(2,4) refl])
next
  assume ok: "num (req_cantidad b) \<le> stock_actual p \<and> tx_fault e = None"
  have mv: "salida e u b d = (Created (expected_json Salida u b p),
              commit_pair (now e) (expected_row Salida e u b p d) p d, [Select, Transaction])"
    unfolding salida_eq using assms ok by (intro movement_ok) (auto simp: stock_escrito_def)
  show "reply (salida e u b d) =
              Created \<lparr>json_producto_id = num (req_producto_id b), json_producto_nombre = nombre p,
                       json_tipo = Salida, json_cantidad = num (req_cantidad b),
                       json_cantidad_anterior = stock_actual p,
                       json_cantidad_nueva = stock_actual p - num (req_cantidad b),
                       json_motivo = req_motivo b, json_usuario_id = user_id u\<rparr>"
    by (simp add: mv reply_def expected_json_def stock_escrito_def cantidad_registrada_def)
  show "stock_de (store (salida e u b d)) (num (req_producto_id b)) = Some (stock_actual p - num (req_cantidad b))"
    by (simp add: mv store_def commit_pair_def expected_row_def stock_de_def stock_escrito_def)
  show "movimientos_inventario (store (salida e u b d)) =
              movimientos_inventario d @
              [\<lparr>mov_id = auto_movimientos d, producto_id = num (req_producto_id b), tipo = Salida,
                cantidad = num (req_cantidad b), cantidad_anterior = stock_actual p,
                cantidad_nueva = stock_actual p - num (req_cantidad b), motivo = req_motivo b,
                usuario_id = user_id u, fecha_movimiento = now e\<rparr>]"
    by (simp add: mv store_def commit_pair_def expected_row_def stock_escrito_def cantidad_registrada_def)
qed

text \<open>
  Scenario A: from stock 50 an exit of 50 succeeds and leaves 0; an exit of 1 from
  stock 0 fails, requested 1, available 0.
\<close>

theorem salida_checks_stock_witness:
  "reply (salida (sin_fallas 100) admin (pedido Salida 1 50) (almacen 50)) =
     Created \<lparr>json_producto_id = 1, json_producto_nombre = ''Teclado'', json_tipo = Salida,
              json_cantidad = 50, json_cantidad_anterior = 50, json_cantidad_nueva = 0,
              json_motivo = None, json_usuario_id = 1\<rparr>
   \<and> stock_de (store (salida (sin_fallas 100) admin (pedido Salida 1 50) (almacen 50))) 1 = Some 0
   \<and> salida (sin_fallas 101) admin (pedido Salida 1 1)
         (store (salida (sin_fallas 100) admin (pedido Salida 1 50) (almacen 50))) =
       (StockInsuficiente 0 1, store (salida (sin_fallas 100) admin (pedido Salida 1 50) (almacen 50)),
        [Select])"
proof -
  let ?d1 = "store (salida (sin_fallas 100) admin (pedido Salida 1 50) (almacen 50))"
  have perm: "perm_all admin \<or> perm_inventory admin" by (simp add: admin_def)
  have v50: "inventoryValidation (pedido Salida 1 50)" using valid_pedido [of 50 1 Salida] by simp
  have v1: "inventoryValidation (pedido Salida 1 1)" using valid_pedido [of 1 1 Salida] by simp
  have s: "\<not> select_fails (sin_fallas 100)" "\<not> select_fails (sin_fallas 101)"
    by (simp_all add: sin_fallas_def)
  have p50: "productos (almacen 50) (num (req_producto_id (pedido Salida 1 50))) = Some (teclado 50)"
    by (simp add: almacen_def pedido_def num_def)
  have p0: "productos ?d1 (num (req_producto_id (pedido Salida 1 1))) =
      Some ((teclado 50)\<lparr>stock_actual := 0, updated_at := 100\<rparr>)"
    by (simp add: handler_defs scenario_defs)
  have act: "activo (teclado 50)" "activo ((teclado 50)\<lparr>stock_actual := 0, updated_at := 100\<rparr>)"
    by (simp_all add: teclado_def)
  from salida_checks_stock [OF perm v50 s(1) p50 act(1)] salida_checks_stock [OF perm v1 s(2) p0 act(2)]
  show ?thesis
    by (simp add: pedido_def num_def teclado_def sin_fallas_def admin_def)
qed

section \<open>Adjustments\<close>

lemma isInt_iff: "isInt m (JNum r) \<longleftrightarrow> r \<in> \<int> \<and> of_int m \<le> r"
  by (auto simp: isInt_def elim: Ints_cases)

text \<open>
  Claim C4. An adjustment with input \<open>q\<close> on an active product of stock \<open>s\<close> commits a
  movement with stock before \<open>s\<close> and stock after \<open>q\<close>, sets the stock to \<open>q\<close>, and
  records as quantity the size of the change, \<open>\<bar>q - s\<bar>\<close>.
\<close>

theorem ajuste_sets_target_records_magnitude:
  assumes "perm_all u \<or> perm_inventory u" and "inventoryValidation b" and "\<not> select_fails e"
    and "tx_fault e = None"
    and "productos d (num (req_producto_id b)) = Some p" and "activo p"
  shows "reply (ajuste e u b d) =
           Created \<lparr>json_producto_id = num (req_producto_id b), json_producto_nombre = nombre p,
                    json_tipo = Ajuste, json_cantidad = \<bar>num (req_cantidad b) - stock_actual p\<bar>,
                    json_cantidad_anterior = stock_actual p,
                    json_cantidad_nueva = num (req_cantidad b),
                    json_motivo = req_motivo b, json_usuario_id = user_id u\<rparr>
       \<and> movimientos_inventario (store (ajuste e u b d)) =
           movimientos_inventario d @
           [\<lparr>mov_id = auto_movimientos d, producto_id = num (req_producto_id b), tipo = Ajuste,
             cantidad = \<bar>num (req_cantidad b) - stock_actual p\<bar>, cantidad_anterior = stock_actual p,
             cantidad_nueva = num (req_cantidad b), motivo = req_motivo b,
             usuario_id = user_id u, fecha_movimiento = now e\<rparr>]
       \<and> stock_de (store (ajuste e u b d)) (num (req_producto_id b)) = Some (num (req_cantidad b))"
proof -
  have mv: "ajuste e u b d = (Created (expected_json Ajuste u b p),
              commit_pair (now e) (expected_row Ajuste e u b p d) p d, [Select, Transaction])"
    unfolding ajuste_eq using assms by (intro movement_ok) (auto simp: stock_escrito_def valid_columnas)
  show ?thesis
    by (simp add: mv reply_def store_def commit_pair_def expected_row_def expected_json_def
        stock_de_def stock_escrito_def cantidad_registrada_def)
qed

text \<open>Scenario B: from stock 10, an adjustment to 7 records quantity 3, before 10, after 7.\<close>

theorem ajuste_sets_target_records_magnitude_witness:
  "reply (ajuste (sin_fallas 100) admin (pedido Ajuste 1 7) (almacen 10)) =
           Created \<lparr>json_producto_id = 1, json_producto_nombre = ''Teclado'',
                    json_tipo = Ajuste, json_cantidad = 3, json_cantidad_anterior = 10,
                    json_cantidad_nueva = 7, json_motivo = None, json_usuario_id = 1\<rparr>
   \<and> movimientos_inventario (store (ajuste (sin_fallas 100) admin (pedido Ajuste 1 7) (almacen 10))) =
           [\<lparr>mov_id = 1, producto_id = 1, tipo = Ajuste, cantidad = 3, cantidad_anterior = 10,
             cantidad_nueva = 7, motivo = None, usuario_id = 1, fecha_movimiento = 100\<rparr>]
   \<and> stock_de (store (ajuste (sin_fallas 100) admin (pedido Ajuste 1 7) (almacen 10))) 1 = Some 7"
proof -
  have perm: "perm_all admin \<or> perm_inventory admin" by (simp add: admin_def)
  have v: "inventoryValidation (pedido Ajuste 1 7)" using valid_pedido [of 7 1 Ajuste] by simp
  have s: "\<not> select_fails (sin_fallas 100)" "tx_fault (sin_fallas 100) = None" by (simp_all add: sin_fallas_def)
  have p: "productos (almacen 10) (num (req_producto_id (pedido Ajuste 1 7))) = Some (teclado 10)"
    by (simp add: almacen_def pedido_def num_def)
  have act: "activo (teclado 10)" by (simp add: teclado_def)
  from ajuste_sets_target_records_magnitude [OF perm v s p act]
  show ?thesis
    by (simp add: pedido_def num_def teclado_def sin_fallas_def almacen_def admin_def)
qed

text \<open>
  Claim C8. Of two consecutive successful adjustments of a product to the same target,
  the second leaves the stock as it found it and records a movement of quantity 0.
\<close>

theorem ajuste_twice_records_zero:
  assumes first: "reply (ajuste e1 u1 b1 d) = Created j1"
    and second: "reply (ajuste e2 u2 b2 (store (ajuste e1 u1 b1 d))) = Created j2"
    and same_product: "num (req_producto_id b2) = num (req_producto_id b1)"
    and same_target: "num (req_cantidad b2) = num (req_cantidad b1)"
  shows "json_cantidad_anterior j2 = num (req_cantidad b1)
       \<and> json_cantidad_nueva j2 = json_cantidad_anterior j2
       \<and> json_cantidad j2 = 0
       \<and> (\<exists>m. movimientos_inventario (store (ajuste e2 u2 b2 (store (ajuste e1 u1 b1 d)))) =
                 movimientos_inventario (store (ajuste e1 u1 b1 d)) @ [m]
              \<and> tipo m = Ajuste \<and> producto_id m = num (req_producto_id b1)
              \<and> cantidad m = 0 \<and> cantidad_anterior m = num (req_cantidad b1)
              \<and> cantidad_nueva m = cantidad_anterior m)
       \<and> stock_de (store (ajuste e2 u2 b2 (store (ajuste e1 u1 b1 d)))) (num (req_producto_id b1)) =
           stock_de (store (ajuste e1 u1 b1 d)) (num (req_producto_id b1))"
proof -
  let ?d1 = "store (ajuste e1 u1 b1 d)"
  from movement_Created [OF first [unfolded ajuste_eq]] obtain p where
    p: "productos d (num (req_producto_id b1)) = Some p" and
    m1: "ajuste e1 u1 b1 d = (Created (expected_json Ajuste u1 b1 p),
           commit_pair (now e1) (expected_row Ajuste e1 u1 b1 p d) p d, [Select, Transaction])"
    unfolding ajuste_eq by blast
  have d1: "?d1 = commit_pair (now e1) (expected_row Ajuste e1 u1 b1 p d) p d"
    by (simp add: m1 store_def)
  have p1: "productos ?d1 (num (req_producto_id b2)) =
              Some (p\<lparr>stock_actual := num (req_cantidad b1), updated_at := now e1\<rparr>)"
    by (simp add: d1 commit_pair_def expected_row_def same_product stock_escrito_def)
  from movement_Created [OF second [unfolded ajuste_eq]] p1 have
    m2: "ajuste e2 u2 b2 ?d1 =
          (Created (expected_json Ajuste u2 b2 (p\<lparr>stock_actual := num (req_cantidad b1), updated_at := now e1\<rparr>)),
           commit_pair (now e2) (expected_row Ajuste e2 u2 b2
              (p\<lparr>stock_actual := num (req_cantidad b1), updated_at := now e1\<rparr>) ?d1)
              (p\<lparr>stock_actual := num (req_cantidad b1), updated_at := now e1\<rparr>) ?d1,
           [Select, Transaction])"
    unfolding ajuste_eq by auto
  have j2: "j2 = expected_json Ajuste u2 b2 (p\<lparr>stock_actual := num (req_cantidad b1), updated_at := now e1\<rparr>)"
    using second by (simp add: m2 reply_def)
  show ?thesis
    apply (intro conjI)
        apply (simp add: j2 expected_json_def)
       apply (simp add: j2 expected_json_def stock_escrito_def same_target)
      apply (simp add: j2 expected_json_def cantidad_registrada_def same_target)
     apply (rule exI [of _ "expected_row Ajuste e2 u2 b2
              (p\<lparr>stock_actual := num (req_cantidad b1), updated_at := now e1\<rparr>) ?d1"])
     apply (simp add: m2 store_def [of "(a, b)" for a b] commit_pair_def [of "now e2"] expected_row_def [of _ e2]
        stock_escrito_def cantidad_registrada_def same_target same_product)
    apply (simp add: m2 store_def [of "(a, b)" for a b] commit_pair_def [of "now e2"] expected_row_def [of _ e2] p1 [unfolded same_product]
        stock_escrito_def same_target same_product stock_de_def)
    done
qed

theorem ajuste_twice_records_zero_witness:
  "reply (ajuste (sin_fallas 100) admin (pedido Ajuste 1 7) (almacen 10)) =
     Created (expected_json Ajuste admin (pedido Ajuste 1 7) (teclado 10))
   \<and> reply (ajuste (sin_fallas 101) admin (pedido Ajuste 1 7)
              (store (ajuste (sin_fallas 100) admin (pedido Ajuste 1 7) (almacen 10)))) =
     Created \<lparr>json_producto_id = 1, json_producto_nombre = ''Teclado'', json_tipo = Ajuste,
              json_cantidad = 0, json_cantidad_anterior = 7, json_cantidad_nueva = 7,
              json_motivo = None, json_usuario_id = 1\<rparr>
   \<and> stock_de (store (ajuste (sin_fallas 101) admin (pedido Ajuste 1 7)
              (store (ajuste (sin_fallas 100) admin (pedido Ajuste 1 7) (almacen 10))))) 1 = Some 7"
proof -
  have r1: "reply (ajuste (sin_fallas 100) admin (pedido Ajuste 1 7) (almacen 10)) =
     Created (expected_json Ajuste admin (pedido Ajuste 1 7) (teclado 10))"
    by (simp add: handler_defs scenario_defs expected_json_def stock_escrito_def cantidad_registrada_def)
  have r2: "reply (ajuste (sin_fallas 101) admin (pedido Ajuste 1 7)
              (store (ajuste (sin_fallas 100) admin (pedido Ajuste 1 7) (almacen 10)))) =
     Created \<lparr>json_producto_id = 1, json_producto_nombre = ''Teclado'', json_tipo = Ajuste,
              json_cantidad = 0, json_cantidad_anterior = 7, json_cantidad_nueva = 7,
              json_motivo = None, json_usuario_id = 1\<rparr>"
    by (simp add: handler_defs scenario_defs)
  have s1: "stock_de (store (ajuste (sin_fallas 100) admin (pedido Ajuste 1 7) (almacen 10))) 1 = Some 7"
    by (simp add: handler_defs scenario_defs stock_de_def)
  from ajuste_twice_records_zero [OF r1 r2 refl refl] r1 r2 s1
  show ?thesis by (simp add: pedido_def num_def)
qed

section \<open>The quantity validation\<close>

text \<open>
  Claim C10. The quantity validation covers the adjustment endpoint as it covers the
  other two: a request whose quantity is absent, zero, negative or not an integer, sent
  as a number or as a string, is rejected before any read or write, and a successful adjustment leaves a stock of at
  least 1, never 0.
\<close>

theorem quantity_validation_covers_ajuste:
  "(req_cantidad b = JUndefined \<or> (\<exists>r. req_cantidad b = JNum r \<and> (r \<le> 0 \<or> r \<notin> \<int>)) \<or>
    (\<exists>s. req_cantidad b = JStr s \<and> (case parse_int s of None \<Rightarrow> True | Some n \<Rightarrow> n \<le> 0)) \<longrightarrow>
      store (movement t e u b d) = d \<and> accesses (movement t e u b d) = [] \<and>
      (if perm_all u \<or> perm_inventory u then reply (movement t e u b d) = DatosInvalidos
       else reply (movement t e u b d) = AccesoDenegado))
   \<and> (reply (ajuste e u b d) = Created j \<longrightarrow>
        1 \<le> json_cantidad_nueva j \<and>
        stock_de (store (ajuste e u b d)) (num (req_producto_id b)) = Some (json_cantidad_nueva j) \<and>
        stock_de (store (ajuste e u b d)) (num (req_producto_id b)) \<noteq> Some 0)"
proof (intro conjI impI)
  assume bad: "req_cantidad b = JUndefined \<or> (\<exists>r. req_cantidad b = JNum r \<and> (r \<le> 0 \<or> r \<notin> \<int>)) \<or>
    (\<exists>s. req_cantidad b = JStr s \<and> (case parse_int s of None \<Rightarrow> True | Some n \<Rightarrow> n \<le> 0))"
  then consider "req_cantidad b = JUndefined" | r where "req_cantidad b = JNum r" "r \<le> 0 \<or> r \<notin> \<int>"
    | s where "req_cantidad b = JStr s" "case parse_int s of None \<Rightarrow> True | Some n \<Rightarrow> n \<le> 0"
    by blast
  then have "\<not> isInt 1 (req_cantidad b)"
  proof cases
    case 1
    then show ?thesis by (simp add: isInt_def)
  next
    case 2
    then show ?thesis by (auto simp: isInt_iff)
  next
    case 3
    then show ?thesis by (auto simp: isInt_def split: option.splits)
  qed
  then have inv: "\<not> inventoryValidation b" by (simp add: inventoryValidation_def)
  show "store (movement t e u b d) = d" using inv
    by (simp add: movement_split movement_read_def store_def)
  show "accesses (movement t e u b d) = []" using inv
    by (simp add: movement_split movement_read_def accesses_def)
  show "if perm_all u \<or> perm_inventory u then reply (movement t e u b d) = DatosInvalidos
       else reply (movement t e u b d) = AccesoDenegado" using inv
    by (simp add: movement_split movement_read_def reply_def)
next
  assume ok: "reply (ajuste e u b d) = Created j"
  from movement_Created [OF ok [unfolded ajuste_eq]] obtain p where
    v: "inventoryValidation b" and
    m: "ajuste e u b d = (Created (expected_json Ajuste u b p),
           commit_pair (now e) (expected_row Ajuste e u b p d) p d, [Select, Transaction])"
    unfolding ajuste_eq by blast
  have j: "j = expected_json Ajuste u b p" using ok by (simp add: m reply_def)
  show one: "1 \<le> json_cantidad_nueva j"
    using valid_cantidad [OF v] by (simp add: j expected_json_def stock_escrito_def)
  show st: "stock_de (store (ajuste e u b d)) (num (req_producto_id b)) = Some (json_cantidad_nueva j)"
    by (simp add: m j store_def commit_pair_def expected_row_def expected_json_def stock_de_def)
  show "stock_de (store (ajuste e u b d)) (num (req_producto_id b)) \<noteq> Some 0"
    using one st by simp
qed

theorem quantity_validation_covers_ajuste_witness:
  "store (movement Ajuste (sin_fallas 100) admin (pedido Ajuste 1 0) (almacen 10)) = almacen 10
   \<and> accesses (movement Ajuste (sin_fallas 100) admin (pedido Ajuste 1 0) (almacen 10)) = []
   \<and> reply (movement Ajuste (sin_fallas 100) admin (pedido Ajuste 1 0) (almacen 10)) = DatosInvalidos
   \<and> reply (movement Ajuste (sin_fallas 100) admin (pedido Ajuste 1 (- 3)) (almacen 10)) = DatosInvalidos
   \<and> reply (movement Ajuste (sin_fallas 100) admin (pedido Ajuste 1 (5 / 2)) (almacen 10)) = DatosInvalidos
   \<and> reply (movement Ajuste (sin_fallas 100) admin (pedido_texto Ajuste 1 ''0'') (almacen 10)) = DatosInvalidos
   \<and> reply (movement Ajuste (sin_fallas 100) admin (pedido_texto Ajuste 1 ''siete'') (almacen 10)) = DatosInvalidos
   \<and> reply (ajuste (sin_fallas 100) admin (pedido Ajuste 1 1) (almacen 10)) =
       Created (expected_json Ajuste admin (pedido Ajuste 1 1) (teclado 10))
   \<and> stock_de (store (ajuste (sin_fallas 100) admin (pedido Ajuste 1 1) (almacen 10))) 1 = Some 1"
proof -
  have perm: "perm_all admin \<or> perm_inventory admin" by (simp add: admin_def)
  have c0: "req_cantidad (pedido Ajuste 1 0) = JUndefined \<or>
            (\<exists>r. req_cantidad (pedido Ajuste 1 0) = JNum r \<and> (r \<le> 0 \<or> r \<notin> \<int>)) \<or>
            (\<exists>s. req_cantidad (pedido Ajuste 1 0) = JStr s \<and> (case parse_int s of None \<Rightarrow> True | Some n \<Rightarrow> n \<le> 0))"
    by (simp add: pedido_def)
  have c3: "req_cantidad (pedido Ajuste 1 (- 3)) = JUndefined \<or>
            (\<exists>r. req_cantidad (pedido Ajuste 1 (- 3)) = JNum r \<and> (r \<le> 0 \<or> r \<notin> \<int>)) \<or>
            (\<exists>s. req_cantidad (pedido Ajuste 1 (- 3)) = JStr s \<and> (case parse_int s of None \<Rightarrow> True | Some n \<Rightarrow> n \<le> 0))"
    by (simp add: pedido_def)
  have half: "(5 / 2 :: rat) \<notin> \<int>"
  proof
    assume "(5 / 2 :: rat) \<in> \<int>"
    then obtain n :: int where "(5 / 2 :: rat) = of_int n" by (rule Ints_cases)
    then have "(5 :: rat) = of_int (2 * n)" by simp
    then have "(5 :: int) = 2 * n" by (metis of_int_eq_iff of_int_numeral)
    then show False by presburger
  qed
  have c5: "req_cantidad (pedido Ajuste 1 (5 / 2)) = JUndefined \<or>
            (\<exists>r. req_cantidad (pedido Ajuste 1 (5 / 2)) = JNum r \<and> (r \<le> 0 \<or> r \<notin> \<int>)) \<or>
            (\<exists>s. req_cantidad (pedido Ajuste 1 (5 / 2)) = JStr s \<and> (case parse_int s of None \<Rightarrow> True | Some n \<Rightarrow> n \<le> 0))"
  proof -
    have "req_cantidad (pedido Ajuste 1 (5 / 2)) = JNum (5 / 2)" by (simp add: pedido_def)
    with half show ?thesis by blast
  qed
  have t0: "req_cantidad (pedido_texto Ajuste 1 ''0'') = JUndefined \<or>
            (\<exists>r. req_cantidad (pedido_texto Ajuste 1 ''0'') = JNum r \<and> (r \<le> 0 \<or> r \<notin> \<int>)) \<or>
            (\<exists>s. req_cantidad (pedido_texto Ajuste 1 ''0'') = JStr s \<and> (case parse_int s of None \<Rightarrow> True | Some n \<Rightarrow> n \<le> 0))"
    by (simp add: pedido_texto_def parse_int_def parse_nat_def digit_of_def)
  have t7: "req_cantidad (pedido_texto Ajuste 1 ''siete'') = JUndefined \<or>
            (\<exists>r. req_cantidad (pedido_texto Ajuste 1 ''siete'') = JNum r \<and> (r \<le> 0 \<or> r \<notin> \<int>)) \<or>
            (\<exists>s. req_cantidad (pedido_texto Ajuste 1 ''siete'') = JStr s \<and> (case parse_int s of None \<Rightarrow> True | Some n \<Rightarrow> n \<le> 0))"
    by (simp add: pedido_texto_def parse_int_def parse_nat_def digit_of_def)
  have r1: "reply (ajuste (sin_fallas 100) admin (pedido Ajuste 1 1) (almacen 10)) =
       Created (expected_json Ajuste admin (pedido Ajuste 1 1) (teclado 10))"
    by (simp add: handler_defs scenario_defs expected_json_def stock_escrito_def cantidad_registrada_def)
  note main = quantity_validation_covers_ajuste
  from main [of "pedido Ajuste 1 0" Ajuste "sin_fallas 100" admin "almacen 10", THEN conjunct1, rule_format, OF c0]
    main [of "pedido Ajuste 1 (- 3)" Ajuste "sin_fallas 100" admin "almacen 10", THEN conjunct1, rule_format, OF c3]
    main [of "pedido Ajuste 1 (5 / 2)" Ajuste "sin_fallas 100" admin "almacen 10", THEN conjunct1, rule_format, OF c5]
    main [of "pedido_texto Ajuste 1 ''0''" Ajuste "sin_fallas 100" admin "almacen 10", THEN conjunct1, rule_format, OF t0]
    main [of "pedido_texto Ajuste 1 ''siete''" Ajuste "sin_fallas 100" admin "almacen 10", THEN conjunct1, rule_format, OF t7]
    main [of "pedido Ajuste 1 1" Ajuste "sin_fallas 100" admin "almacen 10", THEN conjunct2, rule_format, OF r1]
    r1 perm
  show ?thesis
    by (simp add: admin_def pedido_def num_def expected_json_def stock_escrito_def)
qed

section \<open>Validation before any write, and the atomic commit\<close>

text \<open>
  Claim C1. A movement request that fails validation (invalid quantity or kind, product
  missing or inactive, stock too small for an exit) is answered with its error before
  any write: storage is as it was and no transaction was started. Otherwise the call
  either leaves storage as it was, or has appended the movement row and overwritten the
  stock together; no result has one of the two writes without the other.
\<close>

theorem movement_validates_then_commits_atomically:
  "(perm_all u \<or> perm_inventory u \<longrightarrow>
      \<not> isInt 1 (req_cantidad b) \<or> req_tipo b \<notin> set [''entrada'', ''salida'', ''ajuste''] \<or>
      \<not> inventoryValidation b \<longrightarrow>
      movement t e u b d = (DatosInvalidos, d, []))
   \<and> (perm_all u \<or> perm_inventory u \<longrightarrow> inventoryValidation b \<longrightarrow> \<not> select_fails e \<longrightarrow>
      (\<forall>p. productos d (num (req_producto_id b)) = Some p \<longrightarrow> \<not> activo p) \<longrightarrow>
      movement t e u b d = (ProductoNoEncontrado, d, [Select]))
   \<and> (perm_all u \<or> perm_inventory u \<longrightarrow> inventoryValidation b \<longrightarrow> \<not> select_fails e \<longrightarrow>
      productos d (num (req_producto_id b)) = Some p \<longrightarrow> activo p \<longrightarrow>
      stock_actual p < num (req_cantidad b) \<longrightarrow>
      movement Salida e u b d =
        (StockInsuficiente (stock_actual p) (num (req_cantidad b)), d, [Select]))
   \<and> ((\<forall>j. reply (movement t e u b d) \<noteq> Created j) \<and> store (movement t e u b d) = d
      \<or> (\<exists>p. productos d (num (req_producto_id b)) = Some p \<and>
              reply (movement t e u b d) = Created (expected_json t u b p) \<and>
              accesses (movement t e u b d) = [Select, Transaction] \<and>
              movimientos_inventario (store (movement t e u b d)) =
                movimientos_inventario d @ [expected_row t e u b p d] \<and>
              productos (store (movement t e u b d)) =
                (productos d)(num (req_producto_id b) \<mapsto>
                   p\<lparr>stock_actual := cantidad_nueva (expected_row t e u b p d), updated_at := now e\<rparr>)))"
proof (intro conjI impI)
  assume perm: "perm_all u \<or> perm_inventory u"
    and bad: "\<not> isInt 1 (req_cantidad b) \<or> req_tipo b \<notin> set [''entrada'', ''salida'', ''ajuste''] \<or>
      \<not> inventoryValidation b"
  from bad have "\<not> inventoryValidation b" by (auto simp: inventoryValidation_def)
  with perm show "movement t e u b d = (DatosInvalidos, d, [])"
    by (simp add: movement_split movement_read_invalid)
next
  assume "perm_all u \<or> perm_inventory u" "inventoryValidation b" "\<not> select_fails e"
    "\<forall>p. productos d (num (req_producto_id b)) = Some p \<longrightarrow> \<not> activo p"
  then show "movement t e u b d = (ProductoNoEncontrado, d, [Select])"
    by (simp add: movement_split movement_read_missing)
next
  assume a: "perm_all u \<or> perm_inventory u" "inventoryValidation b" "\<not> select_fails e"
    "productos d (num (req_producto_id b)) = Some p" "activo p"
    "stock_actual p < num (req_cantidad b)"
  have "movement_read e u b d = Inr \<lparr>fila_id = num (req_producto_id b), fila_nombre = nombre p,
                                 fila_stock_actual = stock_actual p\<rparr>"
    using a by (simp add: movement_read_found)
  then show "movement Salida e u b d =
        (StockInsuficiente (stock_actual p) (num (req_cantidad b)), d, [Select])"
    using a(6) by (simp add: movement_split movement_commit_result [OF a(2,4) refl])
next
  show "(\<forall>j. reply (movement t e u b d) \<noteq> Created j) \<and> store (movement t e u b d) = d
      \<or> (\<exists>p. productos d (num (req_producto_id b)) = Some p \<and>
              reply (movement t e u b d) = Created (expected_json t u b p) \<and>
              accesses (movement t e u b d) = [Select, Transaction] \<and>
              movimientos_inventario (store (movement t e u b d)) =
                movimientos_inventario d @ [expected_row t e u b p d] \<and>
              productos (store (movement t e u b d)) =
                (productos d)(num (req_producto_id b) \<mapsto>
                   p\<lparr>stock_actual := cantidad_nueva (expected_row t e u b p d), updated_at := now e\<rparr>))"
  proof (cases "\<exists>j. reply (movement t e u b d) = Created j")
    case False
    then have "\<forall>j. reply (movement t e u b d) \<noteq> Created j" by blast
    with movement_not_Created [OF this] show ?thesis by blast
  next
    case True
    then obtain j where "reply (movement t e u b d) = Created j" ..
    from movement_Created [OF this] obtain p where
      p: "productos d (num (req_producto_id b)) = Some p" and
      m: "movement t e u b d = (Created (expected_json t u b p),
            commit_pair (now e) (expected_row t e u b p d) p d, [Select, Transaction])"
      by blast
    have "reply (movement t e u b d) = Created (expected_json t u b p) \<and>
              accesses (movement t e u b d) = [Select, Transaction] \<and>
              movimientos_inventario (store (movement t e u b d)) =
                movimientos_inventario d @ [expected_row t e u b p d] \<and>
              productos (store (movement t e u b d)) =
                (productos d)(num (req_producto_id b) \<mapsto>
                   p\<lparr>stock_actual := cantidad_nueva (expected_row t e u b p d), updated_at := now e\<rparr>)"
      unfolding m by (simp add: reply_def store_def accesses_def commit_pair_def expected_row_def)
    with p show ?thesis by blast
  qed
qed

theorem movement_validates_then_commits_atomically_witness:
  "movement Entrada (sin_fallas 100) admin (pedido Entrada 1 0) (almacen 50) = (DatosInvalidos, almacen 50, [])
   \<and> movement Entrada (sin_fallas 100) admin (pedido Entrada 2 5) (almacen 50) =
       (ProductoNoEncontrado, almacen 50, [Select])
   \<and> movement Salida (sin_fallas 100) admin (pedido Salida 1 51) (almacen 50) =
       (StockInsuficiente 50 51, almacen 50, [Select])
   \<and> store (movement Entrada (con_falla 100 1) admin (pedido Entrada 1 5) (almacen 50)) = almacen 50
   \<and> movimientos_inventario (store (movement Entrada (sin_fallas 100) admin (pedido Entrada 1 5) (almacen 50))) =
       [\<lparr>mov_id = 1, producto_id = 1, tipo = Entrada, cantidad = 5, cantidad_anterior = 50,
         cantidad_nueva = 55, motivo = None, usuario_id = 1, fecha_movimiento = 100\<rparr>]
   \<and> stock_de (store (movement Entrada (sin_fallas 100) admin (pedido Entrada 1 5) (almacen 50))) 1 = Some 55"
proof -
  note main = movement_validates_then_commits_atomically
  have perm: "perm_all admin \<or> perm_inventory admin" by (simp add: admin_def)
  have bad: "\<not> isInt 1 (req_cantidad (pedido Entrada 1 0)) \<or>
      req_tipo (pedido Entrada 1 0) \<notin> set [''entrada'', ''salida'', ''ajuste''] \<or>
      \<not> inventoryValidation (pedido Entrada 1 0)"
    by (simp add: pedido_def isInt_def)
  have v5: "inventoryValidation (pedido Entrada 2 5)" using valid_pedido [of 5 2 Entrada] by simp
  have v51: "inventoryValidation (pedido Salida 1 51)" using valid_pedido [of 51 1 Salida] by simp
  have s: "\<not> select_fails (sin_fallas 100)" by (simp add: sin_fallas_def)
  have none: "\<forall>p. productos (almacen 50) (num (req_producto_id (pedido Entrada 2 5))) = Some p \<longrightarrow> \<not> activo p"
    by (simp add: almacen_def pedido_def num_def)
  have p: "productos (almacen 50) (num (req_producto_id (pedido Salida 1 51))) = Some (teclado 50)"
    by (simp add: almacen_def pedido_def num_def)
  have act: "activo (teclado 50)" and short: "stock_actual (teclado 50) < num (req_cantidad (pedido Salida 1 51))"
    by (simp_all add: teclado_def pedido_def num_def)
  have failed: "reply (movement Entrada (con_falla 100 1) admin (pedido Entrada 1 5) (almacen 50)) = ErrorInterno"
    by (simp add: handler_defs scenario_defs)
  have passed: "reply (movement Entrada (sin_fallas 100) admin (pedido Entrada 1 5) (almacen 50)) =
     Created (expected_json Entrada admin (pedido Entrada 1 5) (teclado 50))"
    by (simp add: handler_defs scenario_defs expected_json_def stock_escrito_def cantidad_registrada_def)
  have p5: "productos (almacen 50) (num (req_producto_id (pedido Entrada 1 5))) = Some (teclado 50)"
    by (simp add: almacen_def pedido_def num_def)
  from main [of admin "pedido Entrada 1 0" Entrada "sin_fallas 100" "almacen 50", THEN conjunct1, rule_format, OF perm bad]
    main [of admin "pedido Entrada 2 5" Entrada "sin_fallas 100" "almacen 50", THEN conjunct2, THEN conjunct1, rule_format, OF perm v5 s none [rule_format]]
    main [of admin "pedido Salida 1 51" _ "sin_fallas 100" "almacen 50" "teclado 50", THEN conjunct2, THEN conjunct2, THEN conjunct1, rule_format, OF perm v51 s p act short]
    main [of admin "pedido Entrada 1 5" Entrada "con_falla 100 1" "almacen 50", THEN conjunct2, THEN conjunct2, THEN conjunct2]
    main [of admin "pedido Entrada 1 5" Entrada "sin_fallas 100" "almacen 50", THEN conjunct2, THEN conjunct2, THEN conjunct2]
    failed passed p5
  show ?thesis
    by (simp add: teclado_def pedido_def num_def expected_row_def expected_json_def stock_escrito_def js_plus_def
        cantidad_registrada_def sin_fallas_def admin_def stock_de_def almacen_def)
qed

section \<open>Stocks are never negative\<close>

lemma executeQuery_cases:
  "executeQuery e q d = Inl PersistenceFailure \<or>
   executeQuery e q d = Inr (affectedRows q d, apply_query (now e) q d)"
proof (cases "tx_fault e")
  case None
  then show ?thesis by (simp add: executeQuery_def del: apply_query.simps)
next
  case (Some k)
  then show ?thesis by (cases k) (simp_all add: executeQuery_def del: apply_query.simps)
qed

lemma movement_store_cases:
  "store (movement t e u b d) = d \<or>
   (\<exists>p. inventoryValidation b \<and> productos d (num (req_producto_id b)) = Some p \<and> activo p \<and>
        (t = Salida \<longrightarrow> num (req_cantidad b) \<le> stock_actual p) \<and>
        store (movement t e u b d) = commit_pair (now e) (expected_row t e u b p d) p d)"
proof (cases "\<exists>j. reply (movement t e u b d) = Created j")
  case True
  then obtain j where "reply (movement t e u b d) = Created j" ..
  from movement_Created [OF this] obtain p where
    "inventoryValidation b" "productos d (num (req_producto_id b)) = Some p" "activo p"
    "t = Salida \<longrightarrow> num (req_cantidad b) \<le> stock_actual p"
    and m: "movement t e u b d = (Created (expected_json t u b p),
            commit_pair (now e) (expected_row t e u b p d) p d, [Select, Transaction])"
    by blast
  moreover have "store (movement t e u b d) = commit_pair (now e) (expected_row t e u b p d) p d"
    unfolding m by (simp add: store_def)
  ultimately show ?thesis by blast
next
  case False
  then have "\<forall>j. reply (movement t e u b d) \<noteq> Created j" by blast
  from movement_not_Created [OF this] show ?thesis by blast
qed

lemma crear_store_cases:
  "store (crear_producto e u b d) = d \<or>
   store (crear_producto e u b d) =
     apply_query (now e) (InsertProducto (''PROD-'' @ decimal (now e)) (pb_nombre b)
        (or_empty (pb_descripcion b)) (pb_precio b) (pb_stock b) (pb_stock_minimo b) (pb_categoria_id b)) d"
proof -
  let ?q = "InsertProducto (''PROD-'' @ decimal (now e)) (pb_nombre b)
        (or_empty (pb_descripcion b)) (pb_precio b) (pb_stock b) (pb_stock_minimo b) (pb_categoria_id b)"
  from executeQuery_cases [of e ?q d] show ?thesis
  proof
    assume "executeQuery e ?q d = Inl PersistenceFailure"
    then show ?thesis by (simp add: crear_producto_def store_def Let_def)
  next
    assume "executeQuery e ?q d = Inr (affectedRows ?q d, apply_query (now e) ?q d)"
    then show ?thesis
      by (simp add: crear_producto_def store_def Let_def del: apply_query.simps)
  qed
qed

lemma actualizar_store_cases:
  "store (actualizar_producto e u pid b d) = d \<or>
   store (actualizar_producto e u pid b d) =
     apply_query (now e) (UpdateProducto (pb_nombre b) (or_empty (pb_descripcion b)) (pb_precio b)
        (pb_stock b) (pb_stock_minimo b) (pb_categoria_id b) pid) d"
proof -
  let ?q = "UpdateProducto (pb_nombre b) (or_empty (pb_descripcion b)) (pb_precio b)
        (pb_stock b) (pb_stock_minimo b) (pb_categoria_id b) pid"
  from executeQuery_cases [of e ?q d] show ?thesis
  proof
    assume "executeQuery e ?q d = Inl PersistenceFailure"
    then show ?thesis by (simp add: actualizar_producto_def store_def)
  next
    assume "executeQuery e ?q d = Inr (affectedRows ?q d, apply_query (now e) ?q d)"
    then show ?thesis
      by (simp add: actualizar_producto_def store_def del: apply_query.simps affectedRows.simps)
  qed
qed

lemma eliminar_store_cases:
  "store (eliminar_producto e u pid d) = d \<or>
   store (eliminar_producto e u pid d) = apply_query (now e) (DesactivarProducto pid) d"
proof -
  let ?q = "DesactivarProducto pid"
  from executeQuery_cases [of e ?q d] show ?thesis
  proof
    assume "executeQuery e ?q d = Inl PersistenceFailure"
    then show ?thesis by (simp add: eliminar_producto_def store_def)
  next
    assume "executeQuery e ?q d = Inr (affectedRows ?q d, apply_query (now e) ?q d)"
    then show ?thesis
      by (simp add: eliminar_producto_def store_def del: apply_query.simps affectedRows.simps)
  qed
qed

lemma decimal_hd: "decimal n \<noteq> [] \<and> hd (decimal n) \<noteq> CHR ''-'' \<and> hd (decimal n) \<noteq> CHR ''+''"
proof (induction n rule: decimal.induct)
  case (1 n)
  show ?case
  proof (cases "n < 10")
    case True
    then show ?thesis by (simp add: decimal.simps [of n] digit_char_def)
  next
    case False
    with 1 show ?thesis by (simp add: decimal.simps [of n])
  qed
qed

lemma parse_int_unsigned:
  assumes "s \<noteq> []" "hd s \<noteq> CHR ''-''"
  shows "0 \<le> (case parse_int s of None \<Rightarrow> 0 | Some n \<Rightarrow> n)"
  using assms by (cases s) (auto simp: parse_int_def split: option.splits)

text \<open>A text appended to a stock that is not negative denotes no negative number.\<close>

lemma js_plus_nonneg:
  assumes "0 \<le> a"
  shows "0 \<le> num (js_plus a (JStr s))"
proof -
  from decimal_hd [of "nat a"] have "decimal (nat a) @ s \<noteq> []" "hd (decimal (nat a) @ s) \<noteq> CHR ''-''"
    by simp_all
  from parse_int_unsigned [OF this] assms show ?thesis
    by (simp add: js_plus_def js_string_def num_def)
qed

lemma stock_escrito_nonneg:
  assumes "inventoryValidation b" "0 \<le> s" "t = Salida \<longrightarrow> num (req_cantidad b) \<le> s"
  shows "0 \<le> num (stock_escrito t s (req_cantidad b))"
proof (cases t)
  case Entrada
  show ?thesis
  proof (cases "req_cantidad b")
    case (JNum r)
    then have "isInt 1 (JNum r)" using assms(1) by (simp add: inventoryValidation_def)
    from js_plus_number(2) [OF this, of s] valid_cantidad [OF assms(1)] assms(2)
    show ?thesis by (simp add: Entrada JNum stock_escrito_def)
  next
    case (JStr x)
    with js_plus_nonneg [OF assms(2), of x] show ?thesis by (simp add: Entrada stock_escrito_def)
  next
    case JUndefined
    then show ?thesis by (simp add: Entrada stock_escrito_def js_plus_def num_def)
  qed
next
  case Salida
  then show ?thesis using assms(3) by (simp add: stock_escrito_def)
next
  case Ajuste
  then show ?thesis using valid_cantidad [OF assms(1)] by (simp add: stock_escrito_def)
qed

lemma perform_keeps_sin_negativos:
  assumes "sin_negativos d" "stock_enviado_ok x"
  shows "sin_negativos (store (perform x d))"
proof (cases x)
  case (Movimiento t e u b)
  show ?thesis
    using movement_store_cases [of t e u b d]
  proof
    assume "store (movement t e u b d) = d"
    then show ?thesis using assms Movimiento by simp
  next
    assume "\<exists>p. inventoryValidation b \<and> productos d (num (req_producto_id b)) = Some p \<and> activo p \<and>
        (t = Salida \<longrightarrow> num (req_cantidad b) \<le> stock_actual p) \<and>
        store (movement t e u b d) = commit_pair (now e) (expected_row t e u b p d) p d"
    then obtain p where v: "inventoryValidation b" and p: "productos d (num (req_producto_id b)) = Some p"
      and le: "t = Salida \<longrightarrow> num (req_cantidad b) \<le> stock_actual p"
      and st: "store (movement t e u b d) = commit_pair (now e) (expected_row t e u b p d) p d"
      by blast
    have "0 \<le> stock_actual p" using assms(1) p by (auto simp: sin_negativos_def)
    from stock_escrito_nonneg [OF v this le] assms(1)
    show ?thesis
      by (auto simp: Movimiento st sin_negativos_def commit_pair_def expected_row_def)
  qed
next
  case (CrearProducto e u b)
  with assms crear_store_cases [of e u b d] show ?thesis
    by (auto simp: sin_negativos_def split: option.splits if_splits)
next
  case (ActualizarProducto e u pid b)
  with assms actualizar_store_cases [of e u pid b d] show ?thesis
    by (auto simp: sin_negativos_def split: option.splits if_splits)
next
  case (EliminarProducto e u pid)
  with assms eliminar_store_cases [of e u pid d] show ?thesis
    by (auto simp: sin_negativos_def split: option.splits if_splits)
next
  case (OtraRuta f)
  with assms show ?thesis by (simp add: sin_negativos_def store_def)
qed

text \<open>
  Claim C5, amended. Starting from stocks that are not negative, after any sequence of
  operations in which every product creation and update carries a stock value that is
  not negative, no product, active or inactive, has a negative stock. The movement
  endpoints keep stocks non-negative by themselves; creation and update store the stock
  value of the request as it comes.
\<close>

theorem stock_stays_non_negative:
  assumes "sin_negativos d" and "\<forall>x \<in> set ops. stock_enviado_ok x"
    and "productos (run ops d) k = Some p"
  shows "0 \<le> stock_actual p"
proof -
  have "sin_negativos (run ops d)"
    using assms(1,2)
  proof (induction ops arbitrary: d)
    case Nil
    then show ?case by simp
  next
    case (Cons x xs)
    then show ?case by (simp add: perform_keeps_sin_negativos)
  qed
  with assms(3) show ?thesis by (auto simp: sin_negativos_def)
qed

text \<open>
  Claim C5 as stated fails: a product update with stock -5 is accepted and leaves the product with stock -5.
\<close>

theorem stock_negative_after_update_counterexample:
  "sin_negativos (almacen 50) \<and>
   stock_de (run [ActualizarProducto (sin_fallas 100) admin 1 (edicion (- 5))] (almacen 50)) 1 = Some (- 5)"
  by (simp add: sin_negativos_def almacen_def teclado_def actualizar_producto_def executeQuery_def
      sin_fallas_def admin_def edicion_def store_def stock_de_def or_empty_def)

lemmas product_defs = crear_producto_def actualizar_producto_def eliminar_producto_def
  executeQuery_def or_empty_def

theorem stock_stays_non_negative_witness:
  "sin_negativos (almacen 50)
   \<and> stock_de (run [Movimiento Entrada (sin_fallas 100) admin (pedido Entrada 1 5),
                   Movimiento Salida (sin_fallas 101) admin (pedido Salida 1 55),
                   Movimiento Salida (sin_fallas 102) admin (pedido Salida 1 1),
                   ActualizarProducto (sin_fallas 103) admin 1 (edicion 3),
                   EliminarProducto (sin_fallas 104) admin 1] (almacen 50)) 1 = Some 3
   \<and> (0::int) \<le> 3"
proof -
  let ?ops = "[Movimiento Entrada (sin_fallas 100) admin (pedido Entrada 1 5),
                   Movimiento Salida (sin_fallas 101) admin (pedido Salida 1 55),
                   Movimiento Salida (sin_fallas 102) admin (pedido Salida 1 1),
                   ActualizarProducto (sin_fallas 103) admin 1 (edicion 3),
                   EliminarProducto (sin_fallas 104) admin 1]"
  have init: "sin_negativos (almacen 50)"
    by (simp add: sin_negativos_def almacen_def teclado_def)
  have ops: "\<forall>x \<in> set ?ops. stock_enviado_ok x" by (simp add: edicion_def)
  have fin: "productos (run ?ops (almacen 50)) 1 =
      Some \<lparr>codigo = ''PROD-1'', nombre = ''Teclado'', descripcion = [], precio = 25,
            stock_minimo = 10, stock_actual = 3, categoria_id = 1, activo = False, updated_at = 104\<rparr>"
    by (simp add: handler_defs scenario_defs product_defs)
  from stock_stays_non_negative [OF init ops fin] init fin
  show ?thesis by (simp add: stock_de_def)
qed

section \<open>The ledger and the stock\<close>

lemma ultimo_commit_pair:
  "ultimo_movimiento (commit_pair t m p d) k =
     (if producto_id m = k then Some m else ultimo_movimiento d k)"
  by (simp add: ultimo_movimiento_def commit_pair_def)

lemma stock_de_commit_pair:
  "stock_de (commit_pair t m p d) k =
     (if producto_id m = k then Some (cantidad_nueva m) else stock_de d k)"
  by (simp add: stock_de_def commit_pair_def)

lemma al_dia_commit_pair: "al_dia d k \<Longrightarrow> al_dia (commit_pair t m p d) k"
  by (auto simp: al_dia_def ultimo_commit_pair stock_de_commit_pair split: option.splits)

lemma integro_commit_pair:
  "integro d \<Longrightarrow> productos d (producto_id m) = Some p \<Longrightarrow> integro (commit_pair t m p d)"
  by (auto simp: integro_def commit_pair_def)

lemma integro_no_rows:
  "integro d \<Longrightarrow> ultimo_movimiento d (auto_productos d) = None"
proof -
  assume i: "integro d"
  have "productos d (auto_productos d) = None"
    using i by (auto simp: integro_def)
  then have "\<forall>m \<in> set (movimientos_inventario d). producto_id m \<noteq> auto_productos d"
    using i by (auto simp: integro_def)
  then have "filter (\<lambda>m. producto_id m = auto_productos d) (movimientos_inventario d) = []"
    by (simp add: filter_empty_conv)
  then show ?thesis by (simp add: ultimo_movimiento_def)
qed

lemma ultimo_only_rows:
  "movimientos_inventario d' = movimientos_inventario d \<Longrightarrow> ultimo_movimiento d' k = ultimo_movimiento d k"
  by (simp add: ultimo_movimiento_def)

lemma al_dia_insert_producto:
  assumes "integro d" "al_dia d k"
  shows "al_dia (apply_query t (InsertProducto cod nom des pre stock smin cat) d) k"
proof (cases "k = auto_productos d")
  case True
  have "ultimo_movimiento (apply_query t (InsertProducto cod nom des pre stock smin cat) d) k =
        ultimo_movimiento d k"
    by (rule ultimo_only_rows) simp
  then show ?thesis using integro_no_rows [OF assms(1)] True by (simp add: al_dia_def)
next
  case False
  have "ultimo_movimiento (apply_query t (InsertProducto cod nom des pre stock smin cat) d) k =
        ultimo_movimiento d k"
    by (rule ultimo_only_rows) simp
  moreover have "stock_de (apply_query t (InsertProducto cod nom des pre stock smin cat) d) k = stock_de d k"
    using False by (simp add: stock_de_def)
  ultimately show ?thesis using assms(2) by (simp add: al_dia_def split: option.splits)
qed

lemma integro_insert_producto:
  "integro d \<Longrightarrow> integro (apply_query t (InsertProducto cod nom des pre stock smin cat) d)"
  by (auto simp: integro_def)

lemma rows_update_producto:
  "movimientos_inventario (apply_query t (UpdateProducto nom des pre stock smin cat pid) d) =
   movimientos_inventario d"
  by (simp split: option.splits)

lemma rows_desactivar:
  "movimientos_inventario (apply_query t (DesactivarProducto pid) d) = movimientos_inventario d"
  by (simp split: option.splits)

lemma stock_de_update_other:
  "pid \<noteq> k \<Longrightarrow> stock_de (apply_query t (UpdateProducto nom des pre stock smin cat pid) d) k = stock_de d k"
  by (simp add: stock_de_def split: option.splits)

lemma stock_de_desactivar:
  "stock_de (apply_query t (DesactivarProducto pid) d) k = stock_de d k"
  by (auto simp: stock_de_def split: option.splits)

lemma integro_update_producto:
  "integro d \<Longrightarrow> integro (apply_query t (UpdateProducto nom des pre stock smin cat pid) d)"
  by (auto simp: integro_def split: option.splits)

lemma integro_desactivar:
  "integro d \<Longrightarrow> integro (apply_query t (DesactivarProducto pid) d)"
  by (auto simp: integro_def split: option.splits)

lemma al_dia_same:
  "movimientos_inventario d' = movimientos_inventario d \<Longrightarrow> stock_de d' k = stock_de d k \<Longrightarrow>
   al_dia d k \<Longrightarrow> al_dia d' k"
  using ultimo_only_rows [of d' d k] by (simp add: al_dia_def split: option.splits)

lemma perform_keeps_integro:
  assumes "integro d"
  shows "integro (store (perform x d))"
proof (cases x)
  case (Movimiento t e u b)
  from movement_store_cases [of t e u b d] show ?thesis
  proof
    assume "store (movement t e u b d) = d"
    then show ?thesis using assms Movimiento by simp
  next
    assume "\<exists>p. inventoryValidation b \<and> productos d (num (req_producto_id b)) = Some p \<and> activo p \<and>
        (t = Salida \<longrightarrow> num (req_cantidad b) \<le> stock_actual p) \<and>
        store (movement t e u b d) = commit_pair (now e) (expected_row t e u b p d) p d"
    then obtain p where p: "productos d (num (req_producto_id b)) = Some p"
      and st: "store (movement t e u b d) = commit_pair (now e) (expected_row t e u b p d) p d"
      by blast
    have "productos d (producto_id (expected_row t e u b p d)) = Some p"
      using p by (simp add: expected_row_def)
    from integro_commit_pair [OF assms this] show ?thesis by (simp add: Movimiento st)
  qed
next
  case (CrearProducto e u b)
  from crear_store_cases [of e u b d] show ?thesis
  proof
    assume "store (crear_producto e u b d) = d"
    then show ?thesis using assms CrearProducto by simp
  next
    assume st: "store (crear_producto e u b d) =
      apply_query (now e) (InsertProducto (''PROD-'' @ decimal (now e)) (pb_nombre b)
        (or_empty (pb_descripcion b)) (pb_precio b) (pb_stock b) (pb_stock_minimo b) (pb_categoria_id b)) d"
    show ?thesis unfolding CrearProducto perform.simps st
      by (rule integro_insert_producto [OF assms])
  qed
next
  case (ActualizarProducto e u pid b)
  from actualizar_store_cases [of e u pid b d] show ?thesis
  proof
    assume "store (actualizar_producto e u pid b d) = d"
    then show ?thesis using assms ActualizarProducto by simp
  next
    assume st: "store (actualizar_producto e u pid b d) =
     apply_query (now e) (UpdateProducto (pb_nombre b) (or_empty (pb_descripcion b)) (pb_precio b)
        (pb_stock b) (pb_stock_minimo b) (pb_categoria_id b) pid) d"
    show ?thesis unfolding ActualizarProducto perform.simps st
      by (rule integro_update_producto [OF assms])
  qed
next
  case (EliminarProducto e u pid)
  from eliminar_store_cases [of e u pid d] show ?thesis
  proof
    assume "store (eliminar_producto e u pid d) = d"
    then show ?thesis using assms EliminarProducto by simp
  next
    assume st: "store (eliminar_producto e u pid d) = apply_query (now e) (DesactivarProducto pid) d"
    show ?thesis unfolding EliminarProducto perform.simps st
      by (rule integro_desactivar [OF assms])
  qed
next
  case (OtraRuta f)
  with assms show ?thesis by (simp add: integro_def store_def)
qed

lemma perform_keeps_al_dia:
  assumes "integro d" "al_dia d k" "\<not> actualiza k x"
  shows "al_dia (store (perform x d)) k"
proof (cases x)
  case (Movimiento t e u b)
  from movement_store_cases [of t e u b d] show ?thesis
  proof
    assume "store (movement t e u b d) = d"
    then show ?thesis using assms Movimiento by simp
  next
    assume "\<exists>p. inventoryValidation b \<and> productos d (num (req_producto_id b)) = Some p \<and> activo p \<and>
        (t = Salida \<longrightarrow> num (req_cantidad b) \<le> stock_actual p) \<and>
        store (movement t e u b d) = commit_pair (now e) (expected_row t e u b p d) p d"
    then obtain p where
      st: "store (movement t e u b d) = commit_pair (now e) (expected_row t e u b p d) p d"
      by blast
    from al_dia_commit_pair [OF assms(2)] show ?thesis by (simp add: Movimiento st)
  qed
next
  case (CrearProducto e u b)
  from crear_store_cases [of e u b d] show ?thesis
  proof
    assume "store (crear_producto e u b d) = d"
    then show ?thesis using assms CrearProducto by simp
  next
    assume st: "store (crear_producto e u b d) =
      apply_query (now e) (InsertProducto (''PROD-'' @ decimal (now e)) (pb_nombre b)
        (or_empty (pb_descripcion b)) (pb_precio b) (pb_stock b) (pb_stock_minimo b) (pb_categoria_id b)) d"
    show ?thesis unfolding CrearProducto perform.simps st
      by (rule al_dia_insert_producto [OF assms(1,2)])
  qed
next
  case (ActualizarProducto e u pid b)
  then have ne: "pid \<noteq> k" using assms(3) by simp
  from actualizar_store_cases [of e u pid b d] show ?thesis
  proof
    assume "store (actualizar_producto e u pid b d) = d"
    then show ?thesis using assms ActualizarProducto by simp
  next
    assume st: "store (actualizar_producto e u pid b d) =
     apply_query (now e) (UpdateProducto (pb_nombre b) (or_empty (pb_descripcion b)) (pb_precio b)
        (pb_stock b) (pb_stock_minimo b) (pb_categoria_id b) pid) d"
    show ?thesis
      unfolding ActualizarProducto perform.simps st
      by (rule al_dia_same [OF rows_update_producto stock_de_update_other [OF ne] assms(2)])
  qed
next
  case (EliminarProducto e u pid)
  from eliminar_store_cases [of e u pid d] show ?thesis
  proof
    assume "store (eliminar_producto e u pid d) = d"
    then show ?thesis using assms EliminarProducto by simp
  next
    assume st: "store (eliminar_producto e u pid d) = apply_query (now e) (DesactivarProducto pid) d"
    show ?thesis
      unfolding EliminarProducto perform.simps st
      by (rule al_dia_same [OF rows_desactivar stock_de_desactivar assms(2)])
  qed
next
  case (OtraRuta f)
  have "al_dia (d\<lparr>usuarios := f (usuarios d)\<rparr>) k"
    by (rule al_dia_same [OF _ _ assms(2)]) (simp_all add: stock_de_def)
  then show ?thesis by (simp add: OtraRuta store_def)
qed

lemma run_keeps_al_dia:
  "integro d \<Longrightarrow> al_dia d k \<Longrightarrow> \<forall>x \<in> set ops. \<not> actualiza k x \<Longrightarrow> al_dia (run ops d) k"
proof (induction ops arbitrary: d)
  case Nil
  then show ?case by simp
next
  case (Cons x xs)
  have "integro (store (perform x d))" using Cons.prems(1) by (rule perform_keeps_integro)
  moreover have "al_dia (store (perform x d)) k"
    using Cons.prems by (intro perform_keeps_al_dia) simp_all
  ultimately show ?case using Cons.IH Cons.prems(3) by simp
qed

lemma rows_perform:
  "movimientos_inventario (store (perform x d)) = movimientos_inventario d \<or>
   (\<exists>t e u b p. x = Movimiento t e u b \<and> inventoryValidation b \<and>
      productos d (num (req_producto_id b)) = Some p \<and> activo p \<and>
      (t = Salida \<longrightarrow> num (req_cantidad b) \<le> stock_actual p) \<and>
      store (perform x d) = commit_pair (now e) (expected_row t e u b p d) p d)"
proof (cases x)
  case (Movimiento t e u b)
  from movement_store_cases [of t e u b d] show ?thesis
  proof
    assume "store (movement t e u b d) = d"
    then show ?thesis by (simp add: Movimiento)
  next
    assume "\<exists>p. inventoryValidation b \<and> productos d (num (req_producto_id b)) = Some p \<and> activo p \<and>
        (t = Salida \<longrightarrow> num (req_cantidad b) \<le> stock_actual p) \<and>
        store (movement t e u b d) = commit_pair (now e) (expected_row t e u b p d) p d"
    then show ?thesis unfolding Movimiento perform.simps by blast
  qed
next
  case (CrearProducto e u b)
  from crear_store_cases [of e u b d] have
    "movimientos_inventario (store (crear_producto e u b d)) = movimientos_inventario d"
    by (rule disjE) simp_all
  then show ?thesis by (simp add: CrearProducto)
next
  case (ActualizarProducto e u pid b)
  from actualizar_store_cases [of e u pid b d] have
    "movimientos_inventario (store (actualizar_producto e u pid b d)) = movimientos_inventario d"
    by (rule disjE) (simp_all only: rows_update_producto)
  then show ?thesis by (simp add: ActualizarProducto)
next
  case (EliminarProducto e u pid)
  from eliminar_store_cases [of e u pid d] have
    "movimientos_inventario (store (eliminar_producto e u pid d)) = movimientos_inventario d"
    by (rule disjE) (simp_all only: rows_desactivar)
  then show ?thesis by (simp add: EliminarProducto)
next
  case (OtraRuta f)
  then show ?thesis by (simp add: store_def)
qed

lemma cantidad_numerica_iff: "cantidad_numerica b \<longleftrightarrow> (\<exists>r. req_cantidad b = JNum r)"
  by (cases "req_cantidad b") (simp_all add: cantidad_numerica_def)

text \<open>
  The stock a handler writes is the stock of the rule of its kind, for exits, for
  adjustments, and for entries whose quantity is a number.
\<close>

lemma num_stock_escrito:
  assumes "inventoryValidation b" and "t = Entrada \<longrightarrow> cantidad_numerica b"
  shows "num (stock_escrito t a (req_cantidad b)) = stock_formula t a (num (req_cantidad b))"
proof -
  from assms(2) have "t = Entrada \<longrightarrow> (\<exists>r. req_cantidad b = JNum r)"
    by (simp add: cantidad_numerica_iff)
  from columna_stock_formula [OF assms(1) this, of a]
  show ?thesis by (rule columna_stock_escrito [OF assms(1)])
qed

lemma expected_row_coherente:
  assumes "inventoryValidation b" and "t = Entrada \<longrightarrow> cantidad_numerica b"
  shows "movimiento_coherente (expected_row t e u b p d)"
  using num_stock_escrito [OF assms, of "stock_actual p"]
  by (cases t) (simp_all add: movimiento_coherente_def expected_row_def stock_formula_def cantidad_registrada_def)

lemma perform_keeps_coherente:
  assumes "\<forall>m \<in> set (movimientos_inventario d). movimiento_coherente m" and "entrada_numerica x"
  shows "\<forall>m \<in> set (movimientos_inventario (store (perform x d))). movimiento_coherente m"
  using rows_perform [of x d]
proof
  assume "movimientos_inventario (store (perform x d)) = movimientos_inventario d"
  then show ?thesis using assms by simp
next
  assume "\<exists>t e u b p. x = Movimiento t e u b \<and> inventoryValidation b \<and>
      productos d (num (req_producto_id b)) = Some p \<and> activo p \<and>
      (t = Salida \<longrightarrow> num (req_cantidad b) \<le> stock_actual p) \<and>
      store (perform x d) = commit_pair (now e) (expected_row t e u b p d) p d"
  then obtain t e u b p where x: "x = Movimiento t e u b" and v: "inventoryValidation b" and
    st: "store (perform x d) = commit_pair (now e) (expected_row t e u b p d) p d" by blast
  from assms(2) x have "t = Entrada \<longrightarrow> cantidad_numerica b" by simp
  from expected_row_coherente [OF v this] assms(1) show ?thesis
    by (auto simp: st commit_pair_def)
qed

lemma run_keeps_coherente:
  "\<forall>m \<in> set (movimientos_inventario d). movimiento_coherente m \<Longrightarrow>
   \<forall>x \<in> set ops. entrada_numerica x \<Longrightarrow>
   \<forall>m \<in> set (movimientos_inventario (run ops d)). movimiento_coherente m"
proof (induction ops arbitrary: d)
  case Nil
  then show ?case by simp
next
  case (Cons x xs)
  from Cons.prems(2) have "entrada_numerica x" "\<forall>x \<in> set xs. entrada_numerica x" by simp_all
  from perform_keeps_coherente [OF Cons.prems(1) this(1)] Cons.IH [OF _ this(2)]
  show ?case by simp
qed

text \<open>
  An entry whose quantity came as the string \<^verbatim>\<open>'5'\<close>: the handler's \<^verbatim>\<open>+\<close> appends it
  to the stock, and from stock 50 the row and the product get 505.
\<close>

lemma entrada_de_texto:
  "reply (entrada (sin_fallas 100) admin (pedido_texto Entrada 1 ''5'') (almacen 50)) =
     Created \<lparr>json_producto_id = 1, json_producto_nombre = ''Teclado'', json_tipo = Entrada,
              json_cantidad = 5, json_cantidad_anterior = 50, json_cantidad_nueva = 505,
              json_motivo = None, json_usuario_id = 1\<rparr>
   \<and> movimientos_inventario (store (entrada (sin_fallas 100) admin (pedido_texto Entrada 1 ''5'') (almacen 50))) =
       [\<lparr>mov_id = 1, producto_id = 1, tipo = Entrada, cantidad = 5, cantidad_anterior = 50,
         cantidad_nueva = 505, motivo = None, usuario_id = 1, fecha_movimiento = 100\<rparr>]
   \<and> stock_de (store (entrada (sin_fallas 100) admin (pedido_texto Entrada 1 ''5'') (almacen 50))) 1 = Some 505"
proof -
  have dec: "decimal 50 = ''50''"
    by (simp add: decimal.simps [of 50] decimal.simps [of 5] digit_char_def)
  have p: "parse_int ''505'' = Some 505" "parse_int ''5'' = Some 5"
    by (simp_all add: parse_int_def parse_nat_def digit_of_def)
  show ?thesis
    by (simp add: handler_defs scenario_defs js_string_def dec p stock_de_def)
qed

text \<open>
  Claim C2, amended. A movement that commits appends a row for the product with the
  stock before it read and the quantity of its kind (for an adjustment, the size of the
  change), and leaves the product's stock equal to the stock after of that row. For an
  exit, for an adjustment, and for an entry whose quantity is sent as a JSON number, the
  stock after is the function of the kind applied to the stock before and the requested
  quantity (entry: sum; exit: difference; adjustment: the requested target). Every row
  of the ledger agrees with the rule of its kind after any sequence of operations whose
  entries carry their quantity as a JSON number. The stock of a product stays equal to
  the stock after of its most recent movement as long as no product update is addressed
  to it; a product update overwrites the stock without a movement.
\<close>

theorem ledger_follows_formula_and_stock_follows_ledger:
  "(reply (movement t e u b d) = Created j \<longrightarrow>
      (\<exists>m p. productos d (num (req_producto_id b)) = Some p \<and>
         movimientos_inventario (store (movement t e u b d)) = movimientos_inventario d @ [m] \<and>
         producto_id m = num (req_producto_id b) \<and> tipo m = t \<and>
         cantidad_anterior m = stock_actual p \<and>
         cantidad m = cantidad_registrada t (cantidad_anterior m) (num (req_cantidad b)) \<and>
         ((t = Entrada \<longrightarrow> cantidad_numerica b) \<longrightarrow>
            cantidad_nueva m = stock_formula t (cantidad_anterior m) (num (req_cantidad b))) \<and>
         ultimo_movimiento (store (movement t e u b d)) (producto_id m) = Some m \<and>
         stock_de (store (movement t e u b d)) (producto_id m) = Some (cantidad_nueva m)))
   \<and> ((\<forall>m \<in> set (movimientos_inventario d). movimiento_coherente m) \<and>
       (\<forall>x \<in> set ops. entrada_numerica x) \<longrightarrow>
      (\<forall>m \<in> set (movimientos_inventario (run ops d)). movimiento_coherente m))
   \<and> (integro d \<and> al_dia d k \<and> (\<forall>x \<in> set ops. \<not> actualiza k x) \<longrightarrow> al_dia (run ops d) k)"
proof (intro conjI)
  show "reply (movement t e u b d) = Created j \<longrightarrow>
      (\<exists>m p. productos d (num (req_producto_id b)) = Some p \<and>
         movimientos_inventario (store (movement t e u b d)) = movimientos_inventario d @ [m] \<and>
         producto_id m = num (req_producto_id b) \<and> tipo m = t \<and>
         cantidad_anterior m = stock_actual p \<and>
         cantidad m = cantidad_registrada t (cantidad_anterior m) (num (req_cantidad b)) \<and>
         ((t = Entrada \<longrightarrow> cantidad_numerica b) \<longrightarrow>
            cantidad_nueva m = stock_formula t (cantidad_anterior m) (num (req_cantidad b))) \<and>
         ultimo_movimiento (store (movement t e u b d)) (producto_id m) = Some m \<and>
         stock_de (store (movement t e u b d)) (producto_id m) = Some (cantidad_nueva m))"
  proof
    assume "reply (movement t e u b d) = Created j"
    from movement_Created [OF this] obtain p where
      v: "inventoryValidation b" and
      p: "productos d (num (req_producto_id b)) = Some p" and
      m: "movement t e u b d = (Created (expected_json t u b p),
            commit_pair (now e) (expected_row t e u b p d) p d, [Select, Transaction])"
      by blast
    let ?m = "expected_row t e u b p d"
    have st: "store (movement t e u b d) = commit_pair (now e) ?m p d"
      unfolding m by (simp add: store_def)
    have "movimientos_inventario (store (movement t e u b d)) = movimientos_inventario d @ [?m]"
      unfolding st by (simp add: commit_pair_def)
    moreover have "producto_id ?m = num (req_producto_id b)" "tipo ?m = t"
      "cantidad_anterior ?m = stock_actual p"
      "cantidad ?m = cantidad_registrada t (cantidad_anterior ?m) (num (req_cantidad b))"
      by (simp_all add: expected_row_def)
    moreover have "(t = Entrada \<longrightarrow> cantidad_numerica b) \<longrightarrow>
        cantidad_nueva ?m = stock_formula t (cantidad_anterior ?m) (num (req_cantidad b))"
    proof
      assume "t = Entrada \<longrightarrow> cantidad_numerica b"
      from num_stock_escrito [OF v this, of "stock_actual p"]
      show "cantidad_nueva ?m = stock_formula t (cantidad_anterior ?m) (num (req_cantidad b))"
        by (simp add: expected_row_def)
    qed
    moreover have "ultimo_movimiento (store (movement t e u b d)) (producto_id ?m) = Some ?m"
      unfolding st by (simp add: ultimo_commit_pair)
    moreover have "stock_de (store (movement t e u b d)) (producto_id ?m) = Some (cantidad_nueva ?m)"
      unfolding st by (simp add: stock_de_commit_pair)
    ultimately show "\<exists>m p. productos d (num (req_producto_id b)) = Some p \<and>
         movimientos_inventario (store (movement t e u b d)) = movimientos_inventario d @ [m] \<and>
         producto_id m = num (req_producto_id b) \<and> tipo m = t \<and>
         cantidad_anterior m = stock_actual p \<and>
         cantidad m = cantidad_registrada t (cantidad_anterior m) (num (req_cantidad b)) \<and>
         ((t = Entrada \<longrightarrow> cantidad_numerica b) \<longrightarrow>
            cantidad_nueva m = stock_formula t (cantidad_anterior m) (num (req_cantidad b))) \<and>
         ultimo_movimiento (store (movement t e u b d)) (producto_id m) = Some m \<and>
         stock_de (store (movement t e u b d)) (producto_id m) = Some (cantidad_nueva m)"
      using p by blast
  qed
next
  show "(\<forall>m \<in> set (movimientos_inventario d). movimiento_coherente m) \<and>
       (\<forall>x \<in> set ops. entrada_numerica x) \<longrightarrow>
      (\<forall>m \<in> set (movimientos_inventario (run ops d)). movimiento_coherente m)"
  proof
    assume a: "(\<forall>m \<in> set (movimientos_inventario d). movimiento_coherente m) \<and>
       (\<forall>x \<in> set ops. entrada_numerica x)"
    from run_keeps_coherente [OF a [THEN conjunct1] a [THEN conjunct2]]
    show "\<forall>m \<in> set (movimientos_inventario (run ops d)). movimiento_coherente m" .
  qed
next
  show "integro d \<and> al_dia d k \<and> (\<forall>x \<in> set ops. \<not> actualiza k x) \<longrightarrow> al_dia (run ops d) k"
    by (simp add: run_keeps_al_dia)
qed

text \<open>
  Scenario: from stock 50 an entry of 5, sent as a number, appends a row with stock after
  55; after an adjustment to 7 and the deactivation of the product the ledger is
  coherent and the stock is the 7 of the last row.
\<close>

theorem ledger_follows_formula_and_stock_follows_ledger_witness:
  "cantidad_nueva (last (movimientos_inventario
        (store (movement Entrada (sin_fallas 100) admin (pedido Entrada 1 5) (almacen 50))))) = 55
   \<and> stock_de (store (movement Entrada (sin_fallas 100) admin (pedido Entrada 1 5) (almacen 50))) 1 = Some 55
   \<and> list_all movimiento_coherente (movimientos_inventario
        (run [Movimiento Entrada (sin_fallas 100) admin (pedido Entrada 1 5),
              Movimiento Ajuste (sin_fallas 101) admin (pedido Ajuste 1 7),
              EliminarProducto (sin_fallas 102) admin 1] (almacen 50)))
   \<and> al_dia (run [Movimiento Entrada (sin_fallas 100) admin (pedido Entrada 1 5),
              Movimiento Ajuste (sin_fallas 101) admin (pedido Ajuste 1 7),
              EliminarProducto (sin_fallas 102) admin 1] (almacen 50)) 1
   \<and> ultimo_movimiento (run [Movimiento Entrada (sin_fallas 100) admin (pedido Entrada 1 5),
              Movimiento Ajuste (sin_fallas 101) admin (pedido Ajuste 1 7),
              EliminarProducto (sin_fallas 102) admin 1] (almacen 50)) 1 =
       Some \<lparr>mov_id = 2, producto_id = 1, tipo = Ajuste, cantidad = 48, cantidad_anterior = 55,
             cantidad_nueva = 7, motivo = None, usuario_id = 1, fecha_movimiento = 101\<rparr>
   \<and> stock_de (run [Movimiento Entrada (sin_fallas 100) admin (pedido Entrada 1 5),
              Movimiento Ajuste (sin_fallas 101) admin (pedido Ajuste 1 7),
              EliminarProducto (sin_fallas 102) admin 1] (almacen 50)) 1 = Some 7"
proof -
  let ?ops = "[Movimiento Entrada (sin_fallas 100) admin (pedido Entrada 1 5),
              Movimiento Ajuste (sin_fallas 101) admin (pedido Ajuste 1 7),
              EliminarProducto (sin_fallas 102) admin 1]"
  let ?d1 = "store (movement Entrada (sin_fallas 100) admin (pedido Entrada 1 5) (almacen 50))"
  note main = ledger_follows_formula_and_stock_follows_ledger
  have created: "reply (movement Entrada (sin_fallas 100) admin (pedido Entrada 1 5) (almacen 50)) =
     Created (expected_json Entrada admin (pedido Entrada 1 5) (teclado 50))"
    by (simp add: handler_defs scenario_defs expected_json_def stock_escrito_def cantidad_registrada_def)
  have numero: "Entrada = Entrada \<longrightarrow> cantidad_numerica (pedido Entrada 1 5)"
    by (simp add: cantidad_numerica_def pedido_def)
  have coh: "(\<forall>m \<in> set (movimientos_inventario (almacen 50)). movimiento_coherente m) \<and>
       (\<forall>x \<in> set ?ops. entrada_numerica x)"
    by (simp add: almacen_def cantidad_numerica_def pedido_def)
  have pre: "integro (almacen 50) \<and> al_dia (almacen 50) 1 \<and> (\<forall>x \<in> set ?ops. \<not> actualiza 1 x)"
    by (simp add: integro_def al_dia_def ultimo_movimiento_def almacen_def)
  have last: "ultimo_movimiento (run ?ops (almacen 50)) 1 =
       Some \<lparr>mov_id = 2, producto_id = 1, tipo = Ajuste, cantidad = 48, cantidad_anterior = 55,
             cantidad_nueva = 7, motivo = None, usuario_id = 1, fecha_movimiento = 101\<rparr>"
    by (simp add: handler_defs scenario_defs product_defs ultimo_movimiento_def)
  have stock: "stock_de (run ?ops (almacen 50)) 1 = Some 7"
    by (simp add: handler_defs scenario_defs product_defs stock_de_def)
  from main [of Entrada "sin_fallas 100" admin "pedido Entrada 1 5" "almacen 50", THEN conjunct1, THEN mp, OF created]
  obtain m p where
    p: "productos (almacen 50) (num (req_producto_id (pedido Entrada 1 5))) = Some p" and
    rows: "movimientos_inventario ?d1 = movimientos_inventario (almacen 50) @ [m]" and
    pid: "producto_id m = num (req_producto_id (pedido Entrada 1 5))" and
    ant: "cantidad_anterior m = stock_actual p" and
    nue: "(Entrada = Entrada \<longrightarrow> cantidad_numerica (pedido Entrada 1 5)) \<longrightarrow>
            cantidad_nueva m = stock_formula Entrada (cantidad_anterior m) (num (req_cantidad (pedido Entrada 1 5)))" and
    st: "stock_de ?d1 (producto_id m) = Some (cantidad_nueva m)"
    by blast
  from p have "p = teclado 50" by (simp add: almacen_def)
  with nue [THEN mp, OF numero] ant have n55: "cantidad_nueva m = 55"
    by (simp add: stock_formula_def teclado_def pedido_def num_def)
  have c1: "cantidad_nueva (last (movimientos_inventario ?d1)) = 55" using rows n55 by simp
  have c2: "stock_de ?d1 1 = Some 55" using st pid n55 by (simp add: pedido_def num_def)
  from main [of _ _ _ _ "almacen 50" _ ?ops 1, THEN conjunct2, THEN conjunct1, THEN mp, OF coh]
    main [of _ _ _ _ "almacen 50" _ ?ops 1, THEN conjunct2, THEN conjunct2, THEN mp, OF pre]
    last stock c1 c2
  show ?thesis by (simp add: list_all_iff)
qed

text \<open>
  Claim C2 as stated fails: after an entry that leaves 55 and a product update carrying stock 7, the last movement
  of the product says 55 and the product has 7.
\<close>

theorem stock_differs_from_last_movement_counterexample:
  "ultimo_movimiento
     (run [Movimiento Entrada (sin_fallas 100) admin (pedido Entrada 1 5),
           ActualizarProducto (sin_fallas 101) admin 1 (edicion 7)] (almacen 50)) 1 =
     Some \<lparr>mov_id = 1, producto_id = 1, tipo = Entrada, cantidad = 5, cantidad_anterior = 50,
           cantidad_nueva = 55, motivo = None, usuario_id = 1, fecha_movimiento = 100\<rparr>
   \<and> stock_de
     (run [Movimiento Entrada (sin_fallas 100) admin (pedido Entrada 1 5),
           ActualizarProducto (sin_fallas 101) admin 1 (edicion 7)] (almacen 50)) 1 = Some 7
   \<and> \<not> al_dia
     (run [Movimiento Entrada (sin_fallas 100) admin (pedido Entrada 1 5),
           ActualizarProducto (sin_fallas 101) admin 1 (edicion 7)] (almacen 50)) 1"
  by (simp add: handler_defs scenario_defs product_defs ultimo_movimiento_def stock_de_def al_dia_def)

section \<open>Who writes the stock\<close>

text \<open>
  Claim C6, amended. Movement rows are written by the three movement endpoints only, and
  a movement endpoint either leaves storage as it was or appends one row and, with it,
  sets the stock of that row's product to the row's stock after, touching no other
  product. Product update and creation also write the stock, from the request body and
  without a movement; product deletion and the other routes never change a stock.
\<close>

theorem movement_rows_only_from_movement_endpoints:
  "(\<not> es_movimiento x \<longrightarrow> movimientos_inventario (store (perform x d)) = movimientos_inventario d)
   \<and> (es_movimiento x \<longrightarrow>
        store (perform x d) = d \<or>
        (\<exists>m p. movimientos_inventario (store (perform x d)) = movimientos_inventario d @ [m] \<and>
               productos d (producto_id m) = Some p \<and> cantidad_anterior m = stock_actual p \<and>
               stock_de (store (perform x d)) (producto_id m) = Some (cantidad_nueva m) \<and>
               (\<forall>k. k \<noteq> producto_id m \<longrightarrow> productos (store (perform x d)) k = productos d k)))
   \<and> (reply (actualizar_producto e u pid b d) = Exito \<longrightarrow>
        stock_de (store (actualizar_producto e u pid b d)) pid = Some (pb_stock b))
   \<and> (reply (crear_producto e u b d) = Exito \<longrightarrow>
        stock_de (store (crear_producto e u b d)) (auto_productos d) = Some (pb_stock b))
   \<and> stock_de (store (eliminar_producto e u pid d)) k = stock_de d k
   \<and> stock_de (store (perform (OtraRuta f) d)) k = stock_de d k"
proof (intro conjI impI)
  assume nm: "\<not> es_movimiento x"
  from rows_perform [of x d] show "movimientos_inventario (store (perform x d)) = movimientos_inventario d"
  proof
    assume "\<exists>t e u b p. x = Movimiento t e u b \<and> inventoryValidation b \<and>
      productos d (num (req_producto_id b)) = Some p \<and> activo p \<and>
      (t = Salida \<longrightarrow> num (req_cantidad b) \<le> stock_actual p) \<and>
      store (perform x d) = commit_pair (now e) (expected_row t e u b p d) p d"
    then show ?thesis using nm by auto
  qed
next
  assume "es_movimiento x"
  then obtain t e u b where x: "x = Movimiento t e u b" by (cases x) simp_all
  from movement_store_cases [of t e u b d]
  show "store (perform x d) = d \<or>
        (\<exists>m p. movimientos_inventario (store (perform x d)) = movimientos_inventario d @ [m] \<and>
               productos d (producto_id m) = Some p \<and> cantidad_anterior m = stock_actual p \<and>
               stock_de (store (perform x d)) (producto_id m) = Some (cantidad_nueva m) \<and>
               (\<forall>k. k \<noteq> producto_id m \<longrightarrow> productos (store (perform x d)) k = productos d k))"
  proof
    assume "store (movement t e u b d) = d"
    then show ?thesis by (simp add: x)
  next
    assume "\<exists>p. inventoryValidation b \<and> productos d (num (req_producto_id b)) = Some p \<and> activo p \<and>
        (t = Salida \<longrightarrow> num (req_cantidad b) \<le> stock_actual p) \<and>
        store (movement t e u b d) = commit_pair (now e) (expected_row t e u b p d) p d"
    then obtain p where p: "productos d (num (req_producto_id b)) = Some p"
      and st: "store (movement t e u b d) = commit_pair (now e) (expected_row t e u b p d) p d"
      by blast
    let ?m = "expected_row t e u b p d"
    have "movimientos_inventario (store (perform x d)) = movimientos_inventario d @ [?m]"
      by (simp add: x st commit_pair_def)
    moreover have "productos d (producto_id ?m) = Some p" using p by (simp add: expected_row_def)
    moreover have "cantidad_anterior ?m = stock_actual p" by (simp add: expected_row_def)
    moreover have "stock_de (store (perform x d)) (producto_id ?m) = Some (cantidad_nueva ?m)"
      by (simp add: x st stock_de_commit_pair)
    moreover have "\<forall>k. k \<noteq> producto_id ?m \<longrightarrow> productos (store (perform x d)) k = productos d k"
      by (simp add: x st commit_pair_def)
    ultimately show ?thesis by blast
  qed
next
  assume ok: "reply (actualizar_producto e u pid b d) = Exito"
  let ?q = "UpdateProducto (pb_nombre b) (or_empty (pb_descripcion b)) (pb_precio b)
        (pb_stock b) (pb_stock_minimo b) (pb_categoria_id b) pid"
  from executeQuery_cases [of e ?q d]
  show "stock_de (store (actualizar_producto e u pid b d)) pid = Some (pb_stock b)"
  proof
    assume "executeQuery e ?q d = Inl PersistenceFailure"
    then show ?thesis using ok by (simp add: actualizar_producto_def reply_def split: if_splits)
  next
    assume "executeQuery e ?q d = Inr (affectedRows ?q d, apply_query (now e) ?q d)"
    then show ?thesis using ok
      by (auto simp: actualizar_producto_def reply_def store_def stock_de_def
          split: if_splits option.splits)
  qed
next
  assume ok: "reply (crear_producto e u b d) = Exito"
  let ?q = "InsertProducto (''PROD-'' @ decimal (now e)) (pb_nombre b)
        (or_empty (pb_descripcion b)) (pb_precio b) (pb_stock b) (pb_stock_minimo b) (pb_categoria_id b)"
  from executeQuery_cases [of e ?q d]
  show "stock_de (store (crear_producto e u b d)) (auto_productos d) = Some (pb_stock b)"
  proof
    assume "executeQuery e ?q d = Inl PersistenceFailure"
    then show ?thesis using ok by (simp add: crear_producto_def reply_def Let_def split: if_splits)
  next
    assume "executeQuery e ?q d = Inr (affectedRows ?q d, apply_query (now e) ?q d)"
    then show ?thesis using ok
      by (auto simp: crear_producto_def reply_def store_def stock_de_def Let_def split: if_splits)
  qed
next
  from eliminar_store_cases [of e u pid d]
  show "stock_de (store (eliminar_producto e u pid d)) k = stock_de d k"
    by (rule disjE) (simp_all only: stock_de_desactivar)
next
  show "stock_de (store (perform (OtraRuta f) d)) k = stock_de d k"
    by (simp add: store_def stock_de_def)
qed

text \<open>
  Claim C6 as stated fails: a product update changes the stock from 50 to 7 and the
  ledger stays empty.
\<close>

theorem update_writes_stock_without_movement_counterexample:
  "stock_de (almacen 50) 1 = Some 50
   \<and> stock_de (store (perform (ActualizarProducto (sin_fallas 100) admin 1 (edicion 7)) (almacen 50))) 1 = Some 7
   \<and> movimientos_inventario (store (perform (ActualizarProducto (sin_fallas 100) admin 1 (edicion 7)) (almacen 50))) = []"
  by (simp add: scenario_defs product_defs stock_de_def store_def)

theorem movement_rows_only_from_movement_endpoints_witness:
  "movimientos_inventario (store (perform (EliminarProducto (sin_fallas 100) admin 1) (almacen 50))) =
     movimientos_inventario (almacen 50)
   \<and> stock_de (store (actualizar_producto (sin_fallas 100) admin 1 (edicion 7) (almacen 50))) 1 = Some 7
   \<and> stock_de (store (crear_producto (sin_fallas 100) admin (edicion 4) (almacen 50))) 2 = Some 4
   \<and> movimientos_inventario (store (perform (Movimiento Entrada (sin_fallas 100) admin (pedido Entrada 1 5)) (almacen 50))) =
       [\<lparr>mov_id = 1, producto_id = 1, tipo = Entrada, cantidad = 5, cantidad_anterior = 50,
         cantidad_nueva = 55, motivo = None, usuario_id = 1, fecha_movimiento = 100\<rparr>]
   \<and> stock_de (store (perform (Movimiento Entrada (sin_fallas 100) admin (pedido Entrada 1 5)) (almacen 50))) 1 = Some 55"
proof -
  note main = movement_rows_only_from_movement_endpoints
  have nm: "\<not> es_movimiento (EliminarProducto (sin_fallas 100) admin 1)" by simp
  have mv: "es_movimiento (Movimiento Entrada (sin_fallas 100) admin (pedido Entrada 1 5))" by simp
  have upd: "reply (actualizar_producto (sin_fallas 100) admin 1 (edicion 7) (almacen 50)) = Exito"
    by (simp add: scenario_defs product_defs reply_def)
  have cre: "reply (crear_producto (sin_fallas 100) admin (edicion 4) (almacen 50)) = Exito"
    by (simp add: scenario_defs product_defs reply_def)
  have auto: "auto_productos (almacen 50) = 2" by (simp add: almacen_def)
  have rows: "movimientos_inventario (store (perform (Movimiento Entrada (sin_fallas 100) admin (pedido Entrada 1 5)) (almacen 50))) =
       [\<lparr>mov_id = 1, producto_id = 1, tipo = Entrada, cantidad = 5, cantidad_anterior = 50,
         cantidad_nueva = 55, motivo = None, usuario_id = 1, fecha_movimiento = 100\<rparr>]"
    by (simp add: handler_defs scenario_defs)
  have stock: "stock_de (store (perform (Movimiento Entrada (sin_fallas 100) admin (pedido Entrada 1 5)) (almacen 50))) 1 = Some 55"
    by (simp add: handler_defs scenario_defs stock_de_def)
  from main [of "EliminarProducto (sin_fallas 100) admin 1" "almacen 50", THEN conjunct1, THEN mp, OF nm]
    main [of _ "almacen 50" "sin_fallas 100" admin 1 "edicion 7", THEN conjunct2, THEN conjunct2, THEN conjunct1, THEN mp, OF upd]
    main [of _ "almacen 50" "sin_fallas 100" admin 1 "edicion 4", THEN conjunct2, THEN conjunct2, THEN conjunct2, THEN conjunct1, THEN mp, OF cre]
    main [of "Movimiento Entrada (sin_fallas 100) admin (pedido Entrada 1 5)" "almacen 50", THEN conjunct2, THEN conjunct1, THEN mp, OF mv]
    rows stock auto
  show ?thesis by (simp add: edicion_def)
qed

section \<open>Movements in turn, and movements that overlap\<close>

lemma encadena_telescopa: "encadena s rows \<Longrightarrow> telescopa rows"
  by (induction rows arbitrary: s rule: telescopa.induct) auto

lemma schedule_two_serial:
  "schedule [0, 0, 1, 1] [Pendiente t1 e1 u1 b1, Pendiente t2 e2 u2 b2] d =
     ([Respondido (reply (movement t1 e1 u1 b1 d)),
       Respondido (reply (movement t2 e2 u2 b2 (store (movement t1 e1 u1 b1 d))))],
      store (movement t2 e2 u2 b2 (store (movement t1 e1 u1 b1 d))))"
proof -
  let ?d1 = "store (movement t1 e1 u1 b1 d)"
  have first: "schedule [0, 0, 1, 1] [Pendiente t1 e1 u1 b1, Pendiente t2 e2 u2 b2] d =
      schedule [1, 1] [Respondido (reply (movement t1 e1 u1 b1 d)), Pendiente t2 e2 u2 b2] ?d1"
  proof (cases "movement_read e1 u1 b1 d")
    case (Inl a)
    obtain r acc where a: "a = (r, acc)" by (cases a)
    show ?thesis by (simp add: movement_split Inl a reply_def store_def)
  next
    case (Inr f)
    show ?thesis by (simp add: movement_split Inr)
  qed
  have second: "schedule [1, 1] [Respondido r1, Pendiente t2 e2 u2 b2] ?d1 =
      ([Respondido r1, Respondido (reply (movement t2 e2 u2 b2 ?d1))], store (movement t2 e2 u2 b2 ?d1))" for r1
  proof (cases "movement_read e2 u2 b2 ?d1")
    case (Inl a)
    obtain r acc where a: "a = (r, acc)" by (cases a)
    show ?thesis by (simp add: movement_split [of t2] Inl a reply_def [of "(x, y)" for x y] store_def [of "(x, y)" for x y])
  next
    case (Inr f)
    show ?thesis by (simp add: movement_split [of t2] Inr)
  qed
  show ?thesis by (simp only: first second)
qed

lemma entrada_step:
  assumes "perm_all u \<or> perm_inventory u" "inventoryValidation b" "\<not> select_fails e" "tx_fault e = None"
    "productos d (num (req_producto_id b)) = Some p" "activo p" "cantidad_numerica b"
  shows "movimientos_inventario (store (movement Entrada e u b d)) =
           movimientos_inventario d @ [expected_row Entrada e u b p d]"
    and "productos (store (movement Entrada e u b d)) (num (req_producto_id b)) =
           Some (p\<lparr>stock_actual := stock_actual p + num (req_cantidad b), updated_at := now e\<rparr>)"
proof -
  have n: "Entrada = Entrada \<longrightarrow> (\<exists>r. req_cantidad b = JNum r)"
    using assms(7) by (simp add: cantidad_numerica_iff)
  have c: "columna_int (stock_escrito Entrada (stock_actual p) (req_cantidad b)) \<noteq> None"
    using columna_stock_formula [OF assms(2) n, of "stock_actual p"] by simp
  have s: "num (stock_escrito Entrada (stock_actual p) (req_cantidad b)) =
             stock_actual p + num (req_cantidad b)"
    using num_stock_escrito [OF assms(2), of Entrada "stock_actual p"] assms(7)
    by (simp add: stock_formula_def)
  have m: "movement Entrada e u b d = (Created (expected_json Entrada u b p),
      commit_pair (now e) (expected_row Entrada e u b p d) p d, [Select, Transaction])"
    using assms(1-6) c by (intro movement_ok) auto
  show "movimientos_inventario (store (movement Entrada e u b d)) =
           movimientos_inventario d @ [expected_row Entrada e u b p d]"
    unfolding m by (simp add: store_def commit_pair_def)
  show "productos (store (movement Entrada e u b d)) (num (req_producto_id b)) =
           Some (p\<lparr>stock_actual := stock_actual p + num (req_cantidad b), updated_at := now e\<rparr>)"
    unfolding m by (simp add: store_def commit_pair_def expected_row_def s)
qed

lemma entradas_en_serie:
  assumes "perm_all u \<or> perm_inventory u" "inventoryValidation b"
    "\<forall>e \<in> set es. \<not> select_fails e \<and> tx_fault e = None"
    "productos d (num (req_producto_id b)) = Some p" "activo p" "cantidad_numerica b"
  shows "\<exists>rows. movimientos_inventario (run (map (\<lambda>e. Movimiento Entrada e u b) es) d) =
                  movimientos_inventario d @ rows \<and>
               length rows = length es \<and> encadena (stock_actual p) rows \<and>
               stock_de (run (map (\<lambda>e. Movimiento Entrada e u b) es) d) (num (req_producto_id b)) =
                 Some (stock_actual p + int (length es) * num (req_cantidad b))"
  using assms(3-5)
proof (induction es arbitrary: d p)
  case Nil
  then show ?case by (simp add: stock_de_def)
next
  case (Cons e es)
  let ?d1 = "store (movement Entrada e u b d)"
  let ?p1 = "p\<lparr>stock_actual := stock_actual p + num (req_cantidad b), updated_at := now e\<rparr>"
  let ?r = "expected_row Entrada e u b p d"
  have e: "\<not> select_fails e" "tx_fault e = None" using Cons.prems(1) by simp_all
  note step = entrada_step [OF assms(1,2) e Cons.prems(2,3) assms(6)]
  have s: "num (stock_escrito Entrada (stock_actual p) (req_cantidad b)) =
             stock_actual p + num (req_cantidad b)"
    using num_stock_escrito [OF assms(2), of Entrada "stock_actual p"] assms(6)
    by (simp add: stock_formula_def)
  have rest: "\<forall>e \<in> set es. \<not> select_fails e \<and> tx_fault e = None" using Cons.prems(1) by simp
  have act: "activo ?p1" using Cons.prems(3) by simp
  from Cons.IH [OF rest step(2) act] obtain rows where
    rows: "movimientos_inventario (run (map (\<lambda>e. Movimiento Entrada e u b) es) ?d1) =
             movimientos_inventario ?d1 @ rows"
    and len: "length rows = length es"
    and chain: "encadena (stock_actual ?p1) rows"
    and stock: "stock_de (run (map (\<lambda>e. Movimiento Entrada e u b) es) ?d1) (num (req_producto_id b)) =
                 Some (stock_actual ?p1 + int (length es) * num (req_cantidad b))"
    by blast
  have "movimientos_inventario (run (map (\<lambda>e. Movimiento Entrada e u b) (e # es)) d) =
          movimientos_inventario d @ (?r # rows)"
    using rows step(1) by simp
  moreover have "length (?r # rows) = length (e # es)" using len by simp
  moreover have "encadena (stock_actual p) (?r # rows)"
    using chain by (simp add: expected_row_def s)
  moreover have "stock_de (run (map (\<lambda>e. Movimiento Entrada e u b) (e # es)) d) (num (req_producto_id b)) =
                 Some (stock_actual p + int (length (e # es)) * num (req_cantidad b))"
    using stock by (simp add: algebra_simps)
  ultimately show ?case by blast
qed

text \<open>
  Claim C7, amended. Two movements of one product handled one after the other serialize:
  the later one starts from the stock the earlier one left; a schedule that runs each
  request to its answer before the next is such a run. Entries of quantity \<open>q\<close>, sent as
  a JSON number and handled one after the other, \<open>N\<close> of them from stock \<open>s\<close>, end at
  \<open>s + N * q\<close> with \<open>N\<close> rows whose snapshots chain from \<open>s\<close>. A commit that fails is
  not retried: the handler answers with the internal error after its one transaction.
  Nothing orders requests that overlap.
\<close>

theorem movements_serialize_when_run_in_turn:
  "(reply (movement t1 e1 u1 b1 d) = Created j1 \<and>
    reply (movement t2 e2 u2 b2 (store (movement t1 e1 u1 b1 d))) = Created j2 \<and>
    num (req_producto_id b2) = num (req_producto_id b1) \<longrightarrow>
      json_cantidad_anterior j2 = json_cantidad_nueva j1)
   \<and> schedule [0, 0, 1, 1] [Pendiente t1 e1 u1 b1, Pendiente t2 e2 u2 b2] d =
       ([Respondido (reply (movement t1 e1 u1 b1 d)),
         Respondido (reply (movement t2 e2 u2 b2 (store (movement t1 e1 u1 b1 d))))],
        store (movement t2 e2 u2 b2 (store (movement t1 e1 u1 b1 d))))
   \<and> ((perm_all u \<or> perm_inventory u) \<and> inventoryValidation b \<and>
      (\<forall>e \<in> set es. \<not> select_fails e \<and> tx_fault e = None) \<and>
      productos d (num (req_producto_id b)) = Some p \<and> activo p \<and> cantidad_numerica b \<longrightarrow>
      (\<exists>rows. movimientos_inventario (run (map (\<lambda>e. Movimiento Entrada e u b) es) d) =
                  movimientos_inventario d @ rows \<and>
               length rows = length es \<and> encadena (stock_actual p) rows \<and> telescopa rows \<and>
               stock_de (run (map (\<lambda>e. Movimiento Entrada e u b) es) d) (num (req_producto_id b)) =
                 Some (stock_actual p + int (length es) * num (req_cantidad b))))
   \<and> ((perm_all u \<or> perm_inventory u) \<and> inventoryValidation b \<and> \<not> select_fails e \<and>
      productos d (num (req_producto_id b)) = Some p \<and> activo p \<and>
      (t = Salida \<longrightarrow> num (req_cantidad b) \<le> stock_actual p) \<and>
      (tx_fault e = Some 0 \<or> tx_fault e = Some 1) \<longrightarrow>
      reply (movement t e u b d) = ErrorInterno \<and>
      accesses (movement t e u b d) = [Select, Transaction])"
proof (intro conjI; (rule impI)?)
  assume a: "reply (movement t1 e1 u1 b1 d) = Created j1 \<and>
    reply (movement t2 e2 u2 b2 (store (movement t1 e1 u1 b1 d))) = Created j2 \<and>
    num (req_producto_id b2) = num (req_producto_id b1)"
  let ?d1 = "store (movement t1 e1 u1 b1 d)"
  from a movement_Created [of t1 e1 u1 b1 d j1] obtain p where
    m1: "movement t1 e1 u1 b1 d = (Created (expected_json t1 u1 b1 p),
           commit_pair (now e1) (expected_row t1 e1 u1 b1 p d) p d, [Select, Transaction])"
    by blast
  have j1: "j1 = expected_json t1 u1 b1 p" using a by (simp add: m1 reply_def)
  have p1: "productos ?d1 (num (req_producto_id b2)) =
      Some (p\<lparr>stock_actual := json_cantidad_nueva j1, updated_at := now e1\<rparr>)"
    using a unfolding m1 by (simp add: store_def commit_pair_def expected_row_def j1 expected_json_def)
  from a movement_Created [of t2 e2 u2 b2 ?d1 j2] obtain p' where
    p': "productos ?d1 (num (req_producto_id b2)) = Some p'" and
    m2: "movement t2 e2 u2 b2 ?d1 = (Created (expected_json t2 u2 b2 p'),
           commit_pair (now e2) (expected_row t2 e2 u2 b2 p' ?d1) p' ?d1, [Select, Transaction])"
    by blast
  have "j2 = expected_json t2 u2 b2 p'" using a by (simp add: m2 reply_def)
  then have "json_cantidad_anterior j2 = stock_actual p'" by (simp add: expected_json_def)
  also have "\<dots> = json_cantidad_nueva j1"
  proof -
    from p' p1 have "p' = p\<lparr>stock_actual := json_cantidad_nueva j1, updated_at := now e1\<rparr>" by simp
    then show ?thesis by simp
  qed
  finally show "json_cantidad_anterior j2 = json_cantidad_nueva j1" .
next
  show "schedule [0, 0, 1, 1] [Pendiente t1 e1 u1 b1, Pendiente t2 e2 u2 b2] d =
       ([Respondido (reply (movement t1 e1 u1 b1 d)),
         Respondido (reply (movement t2 e2 u2 b2 (store (movement t1 e1 u1 b1 d))))],
        store (movement t2 e2 u2 b2 (store (movement t1 e1 u1 b1 d))))"
    by (rule schedule_two_serial)
next
  assume a: "(perm_all u \<or> perm_inventory u) \<and> inventoryValidation b \<and>
      (\<forall>e \<in> set es. \<not> select_fails e \<and> tx_fault e = None) \<and>
      productos d (num (req_producto_id b)) = Some p \<and> activo p \<and> cantidad_numerica b"
  then have "\<exists>rows. movimientos_inventario (run (map (\<lambda>e. Movimiento Entrada e u b) es) d) =
                  movimientos_inventario d @ rows \<and>
               length rows = length es \<and> encadena (stock_actual p) rows \<and>
               stock_de (run (map (\<lambda>e. Movimiento Entrada e u b) es) d) (num (req_producto_id b)) =
                 Some (stock_actual p + int (length es) * num (req_cantidad b))"
    by (intro entradas_en_serie) simp_all
  then show "\<exists>rows. movimientos_inventario (run (map (\<lambda>e. Movimiento Entrada e u b) es) d) =
                  movimientos_inventario d @ rows \<and>
               length rows = length es \<and> encadena (stock_actual p) rows \<and> telescopa rows \<and>
               stock_de (run (map (\<lambda>e. Movimiento Entrada e u b) es) d) (num (req_producto_id b)) =
                 Some (stock_actual p + int (length es) * num (req_cantidad b))"
    using encadena_telescopa by blast
next
  assume a: "(perm_all u \<or> perm_inventory u) \<and> inventoryValidation b \<and> \<not> select_fails e \<and>
      productos d (num (req_producto_id b)) = Some p \<and> activo p \<and>
      (t = Salida \<longrightarrow> num (req_cantidad b) \<le> stock_actual p) \<and>
      (tx_fault e = Some 0 \<or> tx_fault e = Some 1)"
  then have p: "productos d (num (req_producto_id b)) = Some p" by simp
  have rd: "movement_read e u b d = Inr \<lparr>fila_id = num (req_producto_id b), fila_nombre = nombre p,
                                 fila_stock_actual = stock_actual p\<rparr>"
    using a by (simp add: movement_read_found)
  have v: "inventoryValidation b" using a by simp
  have "\<not> (t = Salida \<and> stock_actual p < num (req_cantidad b))" using a by auto
  then have "movement t e u b d = (ErrorInterno, d, [Select, Transaction])"
    unfolding movement_split rd using a
    by (auto simp: movement_commit_result [OF v p refl])
  then show "reply (movement t e u b d) = ErrorInterno \<and>
      accesses (movement t e u b d) = [Select, Transaction]"
    by (simp add: reply_def accesses_def)
qed

text \<open>
  Claim C7 as stated fails: two entries of 5 on stock 50, both reading before either commits: both rows start from
  50, the second row does not start where the first ended, and the stock ends at 55.
\<close>

theorem overlapping_entries_lose_an_update_counterexample:
  "map (cantidad_anterior) (movimientos_inventario (snd (schedule [0, 1, 0, 1]
       [Pendiente Entrada (sin_fallas 100) admin (pedido Entrada 1 5),
        Pendiente Entrada (sin_fallas 100) admin (pedido Entrada 1 5)] (almacen 50)))) = [50, 50]
   \<and> map (cantidad_nueva) (movimientos_inventario (snd (schedule [0, 1, 0, 1]
       [Pendiente Entrada (sin_fallas 100) admin (pedido Entrada 1 5),
        Pendiente Entrada (sin_fallas 100) admin (pedido Entrada 1 5)] (almacen 50)))) = [55, 55]
   \<and> \<not> telescopa (movimientos_inventario (snd (schedule [0, 1, 0, 1]
       [Pendiente Entrada (sin_fallas 100) admin (pedido Entrada 1 5),
        Pendiente Entrada (sin_fallas 100) admin (pedido Entrada 1 5)] (almacen 50))))
   \<and> stock_de (snd (schedule [0, 1, 0, 1]
       [Pendiente Entrada (sin_fallas 100) admin (pedido Entrada 1 5),
        Pendiente Entrada (sin_fallas 100) admin (pedido Entrada 1 5)] (almacen 50))) 1 = Some 55
   \<and> (50 :: int) + 2 * 5 \<noteq> 55"
  by (simp add: handler_defs scenario_defs stock_de_def)

theorem movements_serialize_when_run_in_turn_witness:
  "json_cantidad_nueva (expected_json Entrada admin (pedido Entrada 1 5) (teclado 50)) = 55
   \<and> reply (movement Salida (sin_fallas 101) admin (pedido Salida 1 20)
        (store (movement Entrada (sin_fallas 100) admin (pedido Entrada 1 5) (almacen 50)))) =
       Created \<lparr>json_producto_id = 1, json_producto_nombre = ''Teclado'', json_tipo = Salida,
                json_cantidad = 20, json_cantidad_anterior = 55, json_cantidad_nueva = 35,
                json_motivo = None, json_usuario_id = 1\<rparr>
   \<and> stock_de (run (map (\<lambda>e. Movimiento Entrada e admin (pedido Entrada 1 5))
                  [sin_fallas 100, sin_fallas 101, sin_fallas 102]) (almacen 50)) 1 = Some 65
   \<and> reply (movement Entrada (con_falla 100 1) admin (pedido Entrada 1 5) (almacen 50)) = ErrorInterno
   \<and> accesses (movement Entrada (con_falla 100 1) admin (pedido Entrada 1 5) (almacen 50)) =
       [Select, Transaction]"
proof -
  note main = movements_serialize_when_run_in_turn
  let ?b = "pedido Entrada 1 5"
  have r1: "reply (movement Entrada (sin_fallas 100) admin ?b (almacen 50)) =
      Created (expected_json Entrada admin ?b (teclado 50))"
    by (simp add: handler_defs scenario_defs expected_json_def stock_escrito_def js_plus_def cantidad_registrada_def)
  have r2: "reply (movement Salida (sin_fallas 101) admin (pedido Salida 1 20)
        (store (movement Entrada (sin_fallas 100) admin ?b (almacen 50)))) =
       Created \<lparr>json_producto_id = 1, json_producto_nombre = ''Teclado'', json_tipo = Salida,
                json_cantidad = 20, json_cantidad_anterior = 55, json_cantidad_nueva = 35,
                json_motivo = None, json_usuario_id = 1\<rparr>"
    by (simp add: handler_defs scenario_defs)
  have same: "num (req_producto_id (pedido Salida 1 20)) = num (req_producto_id ?b)"
    by (simp add: pedido_def num_def)
  have perm: "perm_all admin \<or> perm_inventory admin" by (simp add: admin_def)
  have v: "inventoryValidation ?b" using valid_pedido [of 5 1 Entrada] by simp
  have es: "\<forall>e \<in> set [sin_fallas 100, sin_fallas 101, sin_fallas 102]. \<not> select_fails e \<and> tx_fault e = None"
    by (simp add: sin_fallas_def)
  have p: "productos (almacen 50) (num (req_producto_id ?b)) = Some (teclado 50)"
    by (simp add: almacen_def pedido_def num_def)
  have act: "activo (teclado 50)" by (simp add: teclado_def)
  have numero: "cantidad_numerica ?b" by (simp add: cantidad_numerica_def pedido_def)
  have f: "\<not> select_fails (con_falla 100 1)" "tx_fault (con_falla 100 1) = Some 0 \<or> tx_fault (con_falla 100 1) = Some 1"
    by (simp_all add: con_falla_def)
  have ns: "Entrada = Salida \<longrightarrow> num (req_cantidad ?b) \<le> stock_actual (teclado 50)" by simp
  from main [of Entrada "sin_fallas 100" admin ?b "almacen 50" _ Salida "sin_fallas 101" admin "pedido Salida 1 20",
        THEN conjunct1, THEN mp, OF conjI [OF r1 conjI [OF r2 same]]]
    main [of _ _ _ _ "almacen 50" _ _ _ _ _ _ admin ?b "[sin_fallas 100, sin_fallas 101, sin_fallas 102]" "teclado 50",
        THEN conjunct2, THEN conjunct2, THEN conjunct1, THEN mp,
        OF conjI [OF perm conjI [OF v conjI [OF es conjI [OF p conjI [OF act numero]]]]]]
    main [of _ _ _ _ "almacen 50" _ _ _ _ _ _ admin ?b _ "teclado 50" "con_falla 100 1" Entrada,
        THEN conjunct2, THEN conjunct2, THEN conjunct2, THEN mp,
        OF conjI [OF perm conjI [OF v conjI [OF f(1) conjI [OF p conjI [OF act conjI [OF ns f(2)]]]]]]]
    r2
  show ?thesis
    by (auto simp: pedido_def num_def teclado_def)
qed

section \<open>The order of the movement lists\<close>




















end
